theory Spec2Isabelle
  imports Main "HOL-Library.Word"
begin

unbundle bit_operations_syntax

section \<open>Errors (internal/domain/errors.go)\<close>

text \<open>
  The sentinel error values of the domain package. Go compares them by identity; here each
  is a constructor. \<open>error_text\<close> is the message passed to \<open>errors.New\<close>.
\<close>

datatype domain_error =
    ErrInvalidFrameStructure
  | ErrInvalidOpcode
  | ErrReservedBitsSet
  | ErrPayloadTooLarge
  | ErrUnmaskedClientFrame
  | ErrMaskedServerFrame
  | ErrConnectionClosed
  | ErrInvalidState
  | ErrConnectionNotFound
  | ErrInvalidMessageType
  | ErrEmptyPayload
  | ErrProtocolViolation
  | ErrPolicyViolation
  | ErrInternalError

fun error_text :: "domain_error \<Rightarrow> string" where
  "error_text ErrInvalidFrameStructure = ''invalid frame structure''"
| "error_text ErrInvalidOpcode = ''invalid opcode''"
| "error_text ErrReservedBitsSet = ''reserved bits incorrectly set''"
| "error_text ErrPayloadTooLarge = ''payload exceeds maximum size''"
| "error_text ErrUnmaskedClientFrame = ''client frame must be masked''"
| "error_text ErrMaskedServerFrame = ''server frame must not be masked''"
| "error_text ErrConnectionClosed = ''connection is closed''"
| "error_text ErrInvalidState = ''invalid connection state''"
| "error_text ErrConnectionNotFound = ''connection not found''"
| "error_text ErrInvalidMessageType = ''invalid message type''"
| "error_text ErrEmptyPayload = ''empty payload''"
| "error_text ErrProtocolViolation = ''protocol violation''"
| "error_text ErrPolicyViolation = ''policy violation''"
| "error_text ErrInternalError = ''internal error''"

text \<open>
  The values of Go's \<open>error\<close> interface that the modelled functions return: a sentinel
  itself, a sentinel wrapped by \<open>fmt.Errorf\<close> with the verb \<open>%w\<close> (carrying the whole
  formatted message), a plain \<open>fmt.Errorf\<close> message, and the two errors of \<open>io.ReadFull\<close>.
\<close>

datatype go_error =
    Sentinel domain_error
  | Wrapped domain_error string
  | Errorf string
  | EOF
  | ErrUnexpectedEOF

text \<open>\<open>errors.Is err target\<close> for a sentinel target: identity, or the wrapped error.\<close>

fun errors_Is :: "go_error \<Rightarrow> domain_error \<Rightarrow> bool" where
  "errors_Is (Sentinel e) t = (e = t)"
| "errors_Is (Wrapped e msg) t = (e = t)"
| "errors_Is (Errorf msg) t = False"
| "errors_Is EOF t = False"
| "errors_Is ErrUnexpectedEOF t = False"

section \<open>Decimal formatting (the verb \<open>%d\<close> of package fmt)\<close>

definition digit_char :: "nat \<Rightarrow> char" where
  "digit_char d = char_of (48 + d)"

function string_of_nat :: "nat \<Rightarrow> string" where
  "string_of_nat n =
     (if n < 10 then [digit_char n]
      else string_of_nat (n div 10) @ [digit_char (n mod 10)])"
  by pat_completeness auto
termination
  by (relation "measure (\<lambda>n. n)") auto

declare string_of_nat.simps [simp del]

definition string_of_int :: "int \<Rightarrow> string" where
  "string_of_int i = (if i < 0 then CHR ''-'' # string_of_nat (nat (- i)) else string_of_nat (nat i))"

section \<open>Connection (internal/domain/connection.go)\<close>

text \<open>
  \<open>ConnectionState\<close> is a Go \<open>int\<close> with four named constants (\<open>iota\<close>); a value outside
  0..3 is representable, and the \<open>default\<close> branches of the source handle it.
\<close>

type_synonym ConnectionState = int

definition StateConnecting :: ConnectionState where "StateConnecting = 0"
definition StateOpen :: ConnectionState where "StateOpen = 1"
definition StateClosing :: ConnectionState where "StateClosing = 2"
definition StateClosed :: ConnectionState where "StateClosed = 3"

definition ConnectionState_String :: "ConnectionState \<Rightarrow> string" where
  "ConnectionState_String s =
     (if s = StateConnecting then ''Connecting''
      else if s = StateOpen then ''Open''
      else if s = StateClosing then ''Closing''
      else if s = StateClosed then ''Closed''
      else ''Unknown('' @ string_of_int s @ '')'')"

text \<open>
  \<open>time.Time\<close> is an instant; the model takes it as an integer count of clock ticks.
  \<open>time.Now()\<close> reads the clock: the instant read is a parameter \<open>now\<close> of the functions that
  call it. \<open>Metadata\<close> is a \<open>map[string]interface{}\<close>: a partial map into a type \<open>'v\<close> of
  opaque values.
\<close>

type_synonym Time = int

record 'v Connection =
  ID :: string
  RemoteAddr :: string
  State :: ConnectionState
  LastActivity :: Time
  Metadata :: "string \<rightharpoonup> 'v"

definition NewConnection :: "string \<Rightarrow> string \<Rightarrow> Time \<Rightarrow> 'v Connection" where
  "NewConnection cid remoteAddr now =
     \<lparr> ID = cid, RemoteAddr = remoteAddr, State = StateConnecting,
       LastActivity = now, Metadata = Map.empty \<rparr>"

definition CanTransitionTo :: "'v Connection \<Rightarrow> ConnectionState \<Rightarrow> bool" where
  "CanTransitionTo c newState =
     (if State c = StateConnecting then newState = StateOpen \<or> newState = StateClosed
      else if State c = StateOpen then newState = StateClosing \<or> newState = StateClosed
      else if State c = StateClosing then newState = StateClosed
      else if State c = StateClosed then False
      else False)"

text \<open>
  \<open>TransitionTo\<close> mutates the receiver and returns an error or nil: the model returns the
  error (\<open>None\<close> for nil) and the connection after the call.
\<close>

definition TransitionTo :: "'v Connection \<Rightarrow> ConnectionState \<Rightarrow> go_error option \<times> 'v Connection" where
  "TransitionTo c newState =
     (if \<not> CanTransitionTo c newState
      then (Some (Wrapped ErrInvalidState
              (error_text ErrInvalidState @ '': cannot transition from ''
                 @ ConnectionState_String (State c) @ '' to ''
                 @ ConnectionState_String newState)), c)
      else (None, c\<lparr>State := newState\<rparr>))"

definition UpdateActivity :: "'v Connection \<Rightarrow> Time \<Rightarrow> 'v Connection" where
  "UpdateActivity c now = c\<lparr>LastActivity := now\<rparr>"

definition IsOpen :: "'v Connection \<Rightarrow> bool" where
  "IsOpen c = (State c = StateOpen)"

definition IsClosed :: "'v Connection \<Rightarrow> bool" where
  "IsClosed c = (State c = StateClosed)"

definition IsClosing :: "'v Connection \<Rightarrow> bool" where
  "IsClosing c = (State c = StateClosing)"

section \<open>Opcodes and messages (internal/domain/frame.go, message.go)\<close>

type_synonym byte = "8 word"
type_synonym Opcode = byte

definition OpcodeContinuation :: Opcode where "OpcodeContinuation = 0x0"
definition OpcodeText :: Opcode where "OpcodeText = 0x1"
definition OpcodeBinary :: Opcode where "OpcodeBinary = 0x2"
definition OpcodeClose :: Opcode where "OpcodeClose = 0x8"
definition OpcodePing :: Opcode where "OpcodePing = 0x9"
definition OpcodePong :: Opcode where "OpcodePong = 0xA"

definition IsControl :: "Opcode \<Rightarrow> bool" where
  "IsControl o' = (o' \<ge> 0x8)"

definition IsData :: "Opcode \<Rightarrow> bool" where
  "IsData o' = (o' \<le> 0x2)"

text \<open>\<open>MessageType\<close> is a Go \<open>int\<close> with two named constants.\<close>

type_synonym MessageType = int

definition MessageTypeText :: MessageType where "MessageTypeText = 0"
definition MessageTypeBinary :: MessageType where "MessageTypeBinary = 1"

record Message =
  Type :: MessageType
  MPayload :: "byte list"

definition NewTextMessage :: "byte list \<Rightarrow> Message" where
  "NewTextMessage payload = \<lparr> Type = MessageTypeText, MPayload = payload \<rparr>"

definition NewBinaryMessage :: "byte list \<Rightarrow> Message" where
  "NewBinaryMessage payload = \<lparr> Type = MessageTypeBinary, MPayload = payload \<rparr>"

definition Message_Validate :: "Message \<Rightarrow> go_error option" where
  "Message_Validate m =
     (if Type m \<noteq> MessageTypeText \<and> Type m \<noteq> MessageTypeBinary
      then Some (Sentinel ErrInvalidMessageType)
      else None)"

definition ToOpcode :: "Message \<Rightarrow> Opcode" where
  "ToOpcode m =
     (if Type m = MessageTypeText then OpcodeText
      else if Type m = MessageTypeBinary then OpcodeBinary
      else OpcodeBinary)"

section \<open>Frames (internal/domain/frame.go)\<close>

text \<open>
  \<open>PayloadLen\<close> is a \<open>uint64\<close>, \<open>MaskingKey\<close> a \<open>[4]byte\<close> (a quadruple, whose zero value
  is four zero octets). \<open>Payload\<close> is a \<open>[]byte\<close>; a decoded frame is taken by value, its
  payload being the octets of the slice (a nil slice and an empty one are both \<open>[]\<close>).
\<close>

type_synonym uint64 = "64 word"
type_synonym uint16 = "16 word"
type_synonym key4 = "byte \<times> byte \<times> byte \<times> byte"

record FrameFields =
  FIN :: bool
  RSV1 :: bool
  RSV2 :: bool
  RSV3 :: bool
  Opcode :: Opcode
  Masked :: bool
  PayloadLen :: uint64
  MaskingKey :: key4

record Frame = FrameFields +
  Payload :: "byte list"

definition NewFrame :: "Opcode \<Rightarrow> byte list \<Rightarrow> Frame" where
  "NewFrame opcode payload =
     \<lparr> FIN = True, RSV1 = False, RSV2 = False, RSV3 = False, Opcode = opcode,
       Masked = False, PayloadLen = of_nat (length payload), MaskingKey = (0, 0, 0, 0),
       Payload = payload \<rparr>"

definition isValidOpcode :: "Frame \<Rightarrow> bool" where
  "isValidOpcode f =
     (if Opcode f = OpcodeContinuation \<or> Opcode f = OpcodeText \<or> Opcode f = OpcodeBinary
         \<or> Opcode f = OpcodeClose \<or> Opcode f = OpcodePing \<or> Opcode f = OpcodePong
      then True else False)"

text \<open>
  \<open>uint64(len(f.Payload))\<close> is \<open>of_nat (length (Payload f))\<close>: a Go slice is shorter than
  \<open>2 ^ 63\<close>, so the conversion loses nothing there.
\<close>

definition Frame_Validate :: "Frame \<Rightarrow> go_error option" where
  "Frame_Validate f =
     (if \<not> isValidOpcode f then Some (Sentinel ErrInvalidOpcode)
      else if RSV1 f \<or> RSV2 f \<or> RSV3 f then Some (Sentinel ErrReservedBitsSet)
      else if IsControl (Opcode f) \<and> PayloadLen f > 125 then Some (Sentinel ErrInvalidFrameStructure)
      else if IsControl (Opcode f) \<and> \<not> FIN f then Some (Sentinel ErrInvalidFrameStructure)
      else if (of_nat (length (Payload f)) :: uint64) \<noteq> PayloadLen f
        then Some (Sentinel ErrInvalidFrameStructure)
      else None)"

definition IsControlFrame :: "Frame \<Rightarrow> bool" where
  "IsControlFrame f = IsControl (Opcode f)"

definition IsDataFrame :: "Frame \<Rightarrow> bool" where
  "IsDataFrame f = IsData (Opcode f)"

section \<open>Protocol constants (pkg/protocol/constants.go)\<close>

definition WebSocketGUID :: string where
  "WebSocketGUID = ''258EAFA5-E914-47DA-95CA-C5AB0DC85B11''"

definition WebSocketVersion :: string where "WebSocketVersion = ''13''"
definition HeaderUpgrade :: string where "HeaderUpgrade = ''Upgrade''"
definition HeaderConnection :: string where "HeaderConnection = ''Connection''"
definition HeaderSecWebSocketKey :: string where "HeaderSecWebSocketKey = ''Sec-WebSocket-Key''"
definition HeaderSecWebSocketAccept :: string where "HeaderSecWebSocketAccept = ''Sec-WebSocket-Accept''"
definition HeaderSecWebSocketVersion :: string where "HeaderSecWebSocketVersion = ''Sec-WebSocket-Version''"
definition HeaderValueWebSocket :: string where "HeaderValueWebSocket = ''websocket''"
definition HeaderValueUpgrade :: string where "HeaderValueUpgrade = ''Upgrade''"

definition MaxControlFramePayloadSize :: nat where "MaxControlFramePayloadSize = 125"
definition MaxPayloadSize :: uint64 where "MaxPayloadSize = push_bit 20 1"
definition PayloadLen16Bit :: uint64 where "PayloadLen16Bit = 126"
definition PayloadLen64Bit :: uint64 where "PayloadLen64Bit = 127"

section \<open>Byte order (encoding/binary, BigEndian)\<close>

definition PutUint16 :: "uint16 \<Rightarrow> byte list" where
  "PutUint16 v = [ucast (drop_bit 8 v), ucast v]"

definition Uint16 :: "byte list \<Rightarrow> uint16" where
  "Uint16 b = (ucast (b ! 1) OR push_bit 8 (ucast (b ! 0)))"

definition PutUint64 :: "uint64 \<Rightarrow> byte list" where
  "PutUint64 v =
     [ucast (drop_bit 56 v), ucast (drop_bit 48 v), ucast (drop_bit 40 v), ucast (drop_bit 32 v),
      ucast (drop_bit 24 v), ucast (drop_bit 16 v), ucast (drop_bit 8 v), ucast v]"

definition Uint64 :: "byte list \<Rightarrow> uint64" where
  "Uint64 b =
     (ucast (b ! 7) OR push_bit 8 (ucast (b ! 6)) OR push_bit 16 (ucast (b ! 5))
      OR push_bit 24 (ucast (b ! 4)) OR push_bit 32 (ucast (b ! 3)) OR push_bit 40 (ucast (b ! 2))
      OR push_bit 48 (ucast (b ! 1)) OR push_bit 56 (ucast (b ! 0)))"

section \<open>Byte sources and sinks (package io)\<close>

text \<open>
  An \<open>io.Reader\<close> is the list of octets it has still to deliver, ending in end-of-file.
  \<open>io.ReadFull r buf\<close> with \<open>len(buf) = n\<close> delivers exactly \<open>n\<close> octets, or drains the source
  and fails: with \<open>EOF\<close> when nothing was left, with \<open>ErrUnexpectedEOF\<close> after a short read.
  The result is paired with the source after the call.
\<close>

type_synonym reader = "byte list"

definition ReadFull :: "reader \<Rightarrow> nat \<Rightarrow> (go_error + byte list) \<times> reader" where
  "ReadFull r n =
     (if n \<le> length r then (Inr (take n r), drop n r)
      else (Inl (if r = [] then EOF else ErrUnexpectedEOF), []))"

text \<open>
  An \<open>io.Writer\<close> is the list of octets written so far; \<open>Write\<close> appends and, as on a
  \<open>bytes.Buffer\<close>, does not fail.
\<close>

type_synonym writer = "byte list"

definition Write :: "writer \<Rightarrow> byte list \<Rightarrow> writer" where
  "Write w bs = w @ bs"

section \<open>Frame codec (internal/infrastructure/frame\_parser.go)\<close>

record FrameParser =
  maxPayloadSize :: uint64

definition NewFrameParser :: "uint64 \<Rightarrow> FrameParser" where
  "NewFrameParser m = \<lparr> maxPayloadSize = (if m = 0 then MaxPayloadSize else m) \<rparr>"

definition parsePayloadLength :: "FrameParser \<Rightarrow> reader \<Rightarrow> uint64 \<Rightarrow> (go_error + uint64) \<times> reader" where
  "parsePayloadLength fp r initialLen =
     (if initialLen = PayloadLen16Bit then
        (case ReadFull r 2 of
           (Inl err, r') \<Rightarrow> (Inl err, r')
         | (Inr buf, r') \<Rightarrow> (Inr (ucast (Uint16 buf)), r'))
      else if initialLen = PayloadLen64Bit then
        (case ReadFull r 8 of
           (Inl err, r') \<Rightarrow> (Inl err, r')
         | (Inr buf, r') \<Rightarrow> (Inr (Uint64 buf), r'))
      else (Inr initialLen, r))"

text \<open>
  \<open>UnmaskPayload\<close> walks the buffer with an index \<open>i\<close> and replaces octet \<open>i\<close> by its XOR
  with \<open>maskingKey[i % 4]\<close>. The loop is \<open>unmask_from\<close>, started at index 0; it returns the
  buffer after the in-place update.
\<close>

fun key_index :: "key4 \<Rightarrow> nat \<Rightarrow> byte" where
  "key_index (k0, k1, k2, k3) i =
     (if i = 0 then k0 else if i = 1 then k1 else if i = 2 then k2 else k3)"

fun unmask_from :: "nat \<Rightarrow> byte list \<Rightarrow> key4 \<Rightarrow> byte list" where
  "unmask_from i [] k = []"
| "unmask_from i (b # bs) k = (b XOR key_index k (i mod 4)) # unmask_from (Suc i) bs k"

definition UnmaskPayload :: "byte list \<Rightarrow> key4 \<Rightarrow> byte list" where
  "UnmaskPayload payload maskingKey = unmask_from 0 payload maskingKey"

definition key_of_bytes :: "byte list \<Rightarrow> key4" where
  "key_of_bytes b = (b ! 0, b ! 1, b ! 2, b ! 3)"

fun key_bytes :: "key4 \<Rightarrow> byte list" where
  "key_bytes (k0, k1, k2, k3) = [k0, k1, k2, k3]"

text \<open>
  \<open>ReadFrame\<close> returns the frame or the error, and the source after the call, so that what
  a failing read has consumed can be stated. The buffer of the payload is allocated by
  \<open>make\<close> before it is filled; the allocation is taken to succeed.
\<close>

definition ReadFrame :: "FrameParser \<Rightarrow> reader \<Rightarrow> (go_error + Frame) \<times> reader" where
  "ReadFrame fp r0 =
     (case ReadFull r0 2 of
        (Inl err, r1) \<Rightarrow> (Inl err, r1)
      | (Inr header, r1) \<Rightarrow>
          (let fin = ((header ! 0) AND 0x80) \<noteq> 0;
               rsv1 = ((header ! 0) AND 0x40) \<noteq> 0;
               rsv2 = ((header ! 0) AND 0x20) \<noteq> 0;
               rsv3 = ((header ! 0) AND 0x10) \<noteq> 0;
               opcode = (header ! 0) AND 0x0F;
               masked = ((header ! 1) AND 0x80) \<noteq> 0;
               payloadLen7 = (ucast ((header ! 1) AND 0x7F) :: uint64)
           in if \<not> IsControl opcode \<and> \<not> IsData opcode then (Inl (Sentinel ErrInvalidOpcode), r1)
              else if rsv1 \<or> rsv2 \<or> rsv3 then (Inl (Sentinel ErrReservedBitsSet), r1)
              else
                (case parsePayloadLength fp r1 payloadLen7 of
                   (Inl err, r2) \<Rightarrow> (Inl err, r2)
                 | (Inr payloadLen, r2) \<Rightarrow>
                     if payloadLen > maxPayloadSize fp then (Inl (Sentinel ErrPayloadTooLarge), r2)
                     else if IsControl opcode \<and> payloadLen > 125
                       then (Inl (Sentinel ErrInvalidFrameStructure), r2)
                     else if IsControl opcode \<and> \<not> fin
                       then (Inl (Sentinel ErrInvalidFrameStructure), r2)
                     else
                       (case (if masked
                              then (case ReadFull r2 4 of
                                      (Inl err, r3) \<Rightarrow> (Inl err, r3)
                                    | (Inr kb, r3) \<Rightarrow> (Inr (key_of_bytes kb), r3))
                              else (Inr (0, 0, 0, 0), r2)) of
                          (Inl err, r3) \<Rightarrow> (Inl err, r3)
                        | (Inr maskingKey, r3) \<Rightarrow>
                            (case (if payloadLen > 0
                                   then (case ReadFull r3 (unat payloadLen) of
                                           (Inl err, r4) \<Rightarrow> (Inl err, r4)
                                         | (Inr buf, r4) \<Rightarrow>
                                             (Inr (if masked then UnmaskPayload buf maskingKey else buf), r4))
                                   else (Inr [], r3)) of
                               (Inl err, r4) \<Rightarrow> (Inl err, r4)
                             | (Inr payload, r4) \<Rightarrow>
                                 (Inr \<lparr> FIN = fin, RSV1 = rsv1, RSV2 = rsv2, RSV3 = rsv3,
                                        Opcode = opcode, Masked = masked, PayloadLen = payloadLen,
                                        MaskingKey = maskingKey, Payload = payload \<rparr>, r4))))))"

text \<open>
  The header that \<open>WriteFrame\<close> builds (first octet, second octet with the length marker,
  extended length, masking key), before it is written.
\<close>

definition frame_header :: "Frame \<Rightarrow> byte list" where
  "frame_header f =
     (let firstByte = Opcode f;
          firstByte = (if FIN f then firstByte OR 0x80 else firstByte);
          firstByte = (if RSV1 f then firstByte OR 0x40 else firstByte);
          firstByte = (if RSV2 f then firstByte OR 0x20 else firstByte);
          firstByte = (if RSV3 f then firstByte OR 0x10 else firstByte);
          header = [firstByte];
          payloadLen = PayloadLen f;
          secondByte = (if Masked f then 0x80 else 0);
          header =
            (if payloadLen \<le> 125 then header @ [secondByte OR ucast payloadLen]
             else if payloadLen \<le> 65535
               then header @ [secondByte OR ucast PayloadLen16Bit]
                      @ PutUint16 (ucast payloadLen)
             else header @ [secondByte OR ucast PayloadLen64Bit] @ PutUint64 payloadLen)
      in if Masked f then header @ key_bytes (MaskingKey f) else header)"

text \<open>
  \<open>WriteFrame\<close> on a frame taken by value: the error and the sink after the call. The
  masked payload is computed from the payload, which a value cannot lose; what happens to
  the buffer of the caller is the subject of \<open>WriteFrame_heap\<close> below, the same function on
  an explicit store.
\<close>

definition WriteFrame :: "FrameParser \<Rightarrow> writer \<Rightarrow> Frame \<Rightarrow> go_error option \<times> writer" where
  "WriteFrame fp w f =
     (case Frame_Validate f of
        Some err \<Rightarrow> (Some err, w)
      | None \<Rightarrow>
          (let w1 = Write w (frame_header f)
           in if length (Payload f) > 0
              then (let payload = (if Masked f then UnmaskPayload (Payload f) (MaskingKey f)
                                   else Payload f)
                    in (None, Write w1 payload))
              else (None, w1)))"

section \<open>Wire layout of a frame\<close>

text \<open>
  Names for the pieces of an encoded frame, used to state what the codec writes and reads:
  the first octet, the mask bit of the second octet, the three encodings of the length
  field (7-bit, 16-bit after the marker 126, 64-bit after the marker 127, both big-endian),
  the masking key and the payload as transmitted. They are abbreviations: a statement that
  uses them is a statement about the octets themselves.
\<close>

abbreviation octet0 :: "Frame \<Rightarrow> byte" where
  "octet0 f \<equiv> (if FIN f then Opcode f OR 0x80 else Opcode f)"

abbreviation mask_bit :: "Frame \<Rightarrow> byte" where
  "mask_bit f \<equiv> (if Masked f then 0x80 else 0)"

abbreviation len_field7 :: "Frame \<Rightarrow> byte list" where
  "len_field7 f \<equiv> [mask_bit f OR ucast (PayloadLen f)]"

abbreviation len_field16 :: "Frame \<Rightarrow> byte list" where
  "len_field16 f \<equiv>
     [mask_bit f OR 126, ucast (drop_bit 8 (PayloadLen f)), ucast (PayloadLen f)]"

abbreviation len_field64 :: "Frame \<Rightarrow> byte list" where
  "len_field64 f \<equiv>
     [mask_bit f OR 127,
      ucast (drop_bit 56 (PayloadLen f)), ucast (drop_bit 48 (PayloadLen f)),
      ucast (drop_bit 40 (PayloadLen f)), ucast (drop_bit 32 (PayloadLen f)),
      ucast (drop_bit 24 (PayloadLen f)), ucast (drop_bit 16 (PayloadLen f)),
      ucast (drop_bit 8 (PayloadLen f)), ucast (PayloadLen f)]"

abbreviation key_octets :: "Frame \<Rightarrow> byte list" where
  "key_octets f \<equiv> (if Masked f then key_bytes (MaskingKey f) else [])"

abbreviation payload_octets :: "Frame \<Rightarrow> byte list" where
  "payload_octets f \<equiv>
     (if Masked f then UnmaskPayload (Payload f) (MaskingKey f) else Payload f)"

section \<open>Slices and their backing arrays\<close>

text \<open>
  A \<open>[]byte\<close> refers to a backing array, and \<open>UnmaskPayload\<close> updates the array it is given
  in place. To state what \<open>WriteFrame\<close> does to the buffer of its caller, the store is made
  explicit: a heap is the list of the arrays allocated so far, an address is an index into
  it, and a slice is \<open>None\<close> (nil) or the address of its array. \<open>make\<close> appends a fresh
  array of zero octets; \<open>copy\<close> overwrites the front of the destination with as many
  octets as both slices hold.
\<close>

type_synonym addr = nat
type_synonym heap = "byte list list"
type_synonym slice = "addr option"

definition slice_bytes :: "heap \<Rightarrow> slice \<Rightarrow> byte list" where
  "slice_bytes h s = (case s of None \<Rightarrow> [] | Some a \<Rightarrow> h ! a)"

definition slice_len :: "heap \<Rightarrow> slice \<Rightarrow> nat" where
  "slice_len h s = length (slice_bytes h s)"

definition make_bytes :: "heap \<Rightarrow> nat \<Rightarrow> addr \<times> heap" where
  "make_bytes h n = (length h, h @ [replicate n 0])"

definition copy_bytes :: "heap \<Rightarrow> addr \<Rightarrow> slice \<Rightarrow> heap" where
  "copy_bytes h dst src =
     (let n = min (length (h ! dst)) (slice_len h src)
      in h[dst := take n (slice_bytes h src) @ drop n (h ! dst)])"

definition UnmaskPayload_at :: "heap \<Rightarrow> addr \<Rightarrow> key4 \<Rightarrow> heap" where
  "UnmaskPayload_at h a maskingKey = h[a := UnmaskPayload (h ! a) maskingKey]"

text \<open>
  A frame whose payload is a slice, as \<open>WriteFrame\<close> receives it through \<open>*domain.Frame\<close>,
  and the frame value it denotes in a heap.
\<close>

record FrameRef = FrameFields +
  PayloadRef :: slice

definition deref :: "heap \<Rightarrow> FrameRef \<Rightarrow> Frame" where
  "deref h fr =
     \<lparr> FIN = FIN fr, RSV1 = RSV1 fr, RSV2 = RSV2 fr, RSV3 = RSV3 fr, Opcode = Opcode fr,
       Masked = Masked fr, PayloadLen = PayloadLen fr, MaskingKey = MaskingKey fr,
       Payload = slice_bytes h (PayloadRef fr) \<rparr>"

text \<open>
  \<open>WriteFrame\<close> on the store: it returns the error, the heap after the call and the sink
  after the call. The unmasked payload is written from the caller's array; the masked one
  from a fresh array that receives a copy and is then masked in place.
\<close>

definition WriteFrame_heap ::
    "FrameParser \<Rightarrow> heap \<Rightarrow> writer \<Rightarrow> FrameRef \<Rightarrow> go_error option \<times> heap \<times> writer" where
  "WriteFrame_heap fp h w fr =
     (case Frame_Validate (deref h fr) of
        Some err \<Rightarrow> (Some err, h, w)
      | None \<Rightarrow>
          (let w1 = Write w (frame_header (deref h fr))
           in if slice_len h (PayloadRef fr) > 0
              then (if Masked fr
                    then (let (payload, h1) = make_bytes h (slice_len h (PayloadRef fr));
                              h2 = copy_bytes h1 payload (PayloadRef fr);
                              h3 = UnmaskPayload_at h2 payload (MaskingKey fr)
                          in (None, h3, Write w1 (h3 ! payload)))
                    else (None, h, Write w1 (slice_bytes h (PayloadRef fr))))
              else (None, h, w1)))"

section \<open>Strings (packages unicode/utf8, unicode and strings of the Go library)\<close>

text \<open>
  A Go \<open>string\<close> is a sequence of octets; it is a \<open>string\<close> here, one \<open>char\<close> per octet
  (\<open>of_char\<close> reads its value). A rune is a code point, a natural number.

  \<open>DecodeRune\<close> is \<open>utf8.DecodeRuneInString\<close>: the first rune of the string and its width in
  octets. An octet sequence that is not the UTF-8 encoding of a rune (a stray continuation
  octet, a truncated or overlong form, a surrogate, a value above U+10FFFF) decodes to
  \<open>RuneError\<close> with width 1; the empty string to \<open>RuneError\<close> with width 0.
\<close>

type_synonym rune = nat

definition RuneError :: rune where "RuneError = 0xFFFD"
definition RuneSelf :: nat where "RuneSelf = 0x80"

definition DecodeRune :: "string \<Rightarrow> rune \<times> nat" where
  "DecodeRune s =
     (if s = [] then (RuneError, 0)
      else
        (let s0 = (of_char (s ! 0) :: nat)
         in if s0 < RuneSelf then (s0, 1)
            else if s0 < 0xC2 \<or> 0xF4 < s0 then (RuneError, 1)
            else
              (let sz = (if s0 < 0xE0 then 2 else if s0 < 0xF0 then 3 else 4 :: nat);
                   lo = (if s0 = 0xE0 then 0xA0 else if s0 = 0xF0 then 0x90 else 0x80 :: nat);
                   hi = (if s0 = 0xED then 0x9F else if s0 = 0xF4 then 0x8F else 0xBF :: nat)
               in if length s < sz then (RuneError, 1)
                  else
                    (let s1 = (of_char (s ! 1) :: nat)
                     in if s1 < lo \<or> hi < s1 then (RuneError, 1)
                        else if sz \<le> 2 then ((s0 mod 32) * 64 + s1 mod 64, 2)
                        else
                          (let s2 = (of_char (s ! 2) :: nat)
                           in if s2 < 0x80 \<or> 0xBF < s2 then (RuneError, 1)
                              else if sz \<le> 3
                                then ((s0 mod 16) * 4096 + (s1 mod 64) * 64 + s2 mod 64, 3)
                              else
                                (let s3 = (of_char (s ! 3) :: nat)
                                 in if s3 < 0x80 \<or> 0xBF < s3 then (RuneError, 1)
                                    else ((s0 mod 8) * 262144 + (s1 mod 64) * 4096
                                            + (s2 mod 64) * 64 + s3 mod 64, 4)))))))"

text \<open>
  \<open>DecodeLastRune\<close> is \<open>utf8.DecodeLastRuneInString\<close>: the last rune of the string and its
  width. It steps back over at most three octets to an octet that can start a rune,
  decodes forward from there, and answers \<open>RuneError\<close> with width 1 when that rune does not
  end at the end of the string.
\<close>

definition RuneStart :: "char \<Rightarrow> bool" where
  "RuneStart c = ((of_char c :: nat) div 64 \<noteq> 2)"

definition last_rune_start :: "string \<Rightarrow> nat" where
  "last_rune_start s =
     (let e = length s
      in if 2 \<le> e \<and> RuneStart (s ! (e - 2)) then e - 2
         else if 3 \<le> e \<and> RuneStart (s ! (e - 3)) then e - 3
         else if 4 \<le> e \<and> RuneStart (s ! (e - 4)) then e - 4
         else if 5 \<le> e then e - 5
         else 0)"

definition DecodeLastRune :: "string \<Rightarrow> rune \<times> nat" where
  "DecodeLastRune s =
     (if s = [] then (RuneError, 0)
      else if (of_char (last s) :: nat) < RuneSelf then (of_char (last s), 1)
      else
        (let start = last_rune_start s;
             (r, size) = DecodeRune (drop start s)
         in if start + size \<noteq> length s then (RuneError, 1) else (r, size)))"

text \<open>
  \<open>unicode.IsSpace\<close>: the Latin-1 white space, and the runes of the Unicode property
  White\_Space beyond Latin-1.
\<close>

definition IsSpace :: "rune \<Rightarrow> bool" where
  "IsSpace r =
     (if r \<le> 0xFF
      then r = 0x09 \<or> r = 0x0A \<or> r = 0x0B \<or> r = 0x0C \<or> r = 0x0D \<or> r = 0x20
           \<or> r = 0x85 \<or> r = 0xA0
      else r = 0x1680 \<or> (0x2000 \<le> r \<and> r \<le> 0x200A) \<or> r = 0x2028 \<or> r = 0x2029
           \<or> r = 0x202F \<or> r = 0x205F \<or> r = 0x3000)"

definition asciiSpace :: "char \<Rightarrow> bool" where
  "asciiSpace c =
     (c = CHR 0x09 \<or> c = CHR 0x0A \<or> c = CHR 0x0B \<or> c = CHR 0x0C \<or> c = CHR 0x0D
      \<or> c = CHR 0x20)"

text \<open>
  \<open>strings.TrimLeftFunc s unicode.IsSpace\<close>: the string from its first rune that is not
  white space.
\<close>

function TrimLeftSpace :: "string \<Rightarrow> string" where
  "TrimLeftSpace s =
     (if s = [] then []
      else if IsSpace (fst (DecodeRune s))
        then TrimLeftSpace (drop (snd (DecodeRune s)) s)
      else s)"
  by pat_completeness auto
termination
proof (relation "measure length")
  show "wf (measure length)" by simp
next
  fix s :: string
  assume ne: "s \<noteq> []"
  have "0 < snd (DecodeRune s)"
    using ne by (simp add: DecodeRune_def Let_def)
  then show "(drop (snd (DecodeRune s)) s, s) \<in> measure length"
    using ne by simp
qed

declare TrimLeftSpace.simps [simp del]

text \<open>
  \<open>strings.TrimRightFunc s unicode.IsSpace\<close>. \<open>lastIndexNotSpace\<close> is the index at which
  the last rune that is not white space starts, found by decoding backwards (\<open>None\<close> for
  Go's -1); the result ends after that rune, whose width is taken by decoding forwards.
\<close>

function lastIndexNotSpace :: "string \<Rightarrow> nat option" where
  "lastIndexNotSpace s =
     (if s = [] then None
      else if \<not> IsSpace (fst (DecodeLastRune s))
        then Some (length s - snd (DecodeLastRune s))
      else lastIndexNotSpace (take (length s - snd (DecodeLastRune s)) s))"
  by pat_completeness auto
termination
proof (relation "measure length")
  show "wf (measure length)" by simp
next
  fix s :: string
  assume ne: "s \<noteq> []" and "\<not> \<not> IsSpace (fst (DecodeLastRune s))"
  have "last_rune_start s < length s"
    using ne by (simp add: last_rune_start_def Let_def)
  then have "0 < snd (DecodeLastRune s)"
    using ne
    by (cases "DecodeRune (drop (last_rune_start s) s)") (auto simp add: DecodeLastRune_def Let_def)
  then show "(take (length s - snd (DecodeLastRune s)) s, s) \<in> measure length"
    using ne by simp
qed

declare lastIndexNotSpace.simps [simp del]

definition TrimRightSpace :: "string \<Rightarrow> string" where
  "TrimRightSpace s =
     (case lastIndexNotSpace s of
        None \<Rightarrow> []
      | Some i \<Rightarrow>
          if RuneSelf \<le> (of_char (s ! i) :: nat)
          then take (i + snd (DecodeRune (drop i s))) s
          else take (i + 1) s)"

text \<open>
  \<open>strings.TrimSpace\<close>: leading ASCII white space is skipped octet by octet; at a first
  octet from 0x80 on, the rest is trimmed on both sides rune by rune. Otherwise trailing
  ASCII white space is skipped from the end; at an octet from 0x80 on, what is left is
  trimmed on the right rune by rune.
\<close>

definition TrimSpace :: "string \<Rightarrow> string" where
  "TrimSpace s =
     (let s1 = dropWhile asciiSpace s
      in if s1 = [] then []
         else if RuneSelf \<le> (of_char (hd s1) :: nat) then TrimRightSpace (TrimLeftSpace s1)
         else
           (let s2 = rev (dropWhile asciiSpace (rev s1))
            in if s2 = [] then []
               else if RuneSelf \<le> (of_char (last s2) :: nat) then TrimRightSpace s2
               else s2))"

text \<open>
  \<open>strings.Split s sep\<close> for a separator of one octet: the pieces between the separators,
  one more than there are separators.
\<close>

fun Split :: "string \<Rightarrow> char \<Rightarrow> string list" where
  "Split [] sep = [ [] ]"
| "Split (c # cs) sep =
     (if c = sep then [] # Split cs sep
      else (case Split cs sep of [] \<Rightarrow> [ [c] ] | x # xs \<Rightarrow> (c # x) # xs))"

text \<open>
  The runes of a string, as a \<open>range\<close> loop over it delivers them.
\<close>

function runes :: "string \<Rightarrow> rune list" where
  "runes s =
     (if s = [] then []
      else fst (DecodeRune s) # runes (drop (snd (DecodeRune s)) s))"
  by pat_completeness auto
termination
proof (relation "measure length")
  show "wf (measure length)" by simp
next
  fix s :: string
  assume ne: "s \<noteq> []"
  have "0 < snd (DecodeRune s)"
    using ne by (simp add: DecodeRune_def Let_def)
  then show "(drop (snd (DecodeRune s)) s, s) \<in> measure length"
    using ne by simp
qed

declare runes.simps [simp del]

text \<open>
  \<open>strings.EqualFold s t\<close>: both strings are read as UTF-8 and compared rune by rune under
  simple Unicode case folding. Two runes are equal under folding when they are the same or
  lie in one orbit of \<open>unicode.SimpleFold\<close>. Two ASCII runes do so when they are the two
  cases of a letter. The orbit of an ASCII rune holds a rune from U+0080 on in two cases
  only: U+212A (Kelvin sign) with \<open>K\<close> and \<open>k\<close>, and U+017F (long s) with \<open>S\<close> and \<open>s\<close>. The
  orbits among the runes from U+0080 on are in the tables of package unicode; they are a
  parameter \<open>tbl\<close> of the model, asked about two distinct runes that are both outside ASCII.
\<close>

definition fold_eq :: "(rune \<Rightarrow> rune \<Rightarrow> bool) \<Rightarrow> rune \<Rightarrow> rune \<Rightarrow> bool" where
  "fold_eq tbl a b =
     (let sr = min a b; tr = max a b
      in if tr = sr then True
         else if tr < RuneSelf then 0x41 \<le> sr \<and> sr \<le> 0x5A \<and> tr = sr + 0x20
         else if sr < RuneSelf
           then ((sr = 0x4B \<or> sr = 0x6B) \<and> tr = 0x212A) \<or> ((sr = 0x53 \<or> sr = 0x73) \<and> tr = 0x17F)
         else tbl sr tr)"

definition EqualFold :: "(rune \<Rightarrow> rune \<Rightarrow> bool) \<Rightarrow> string \<Rightarrow> string \<Rightarrow> bool" where
  "EqualFold tbl s t = list_all2 (fold_eq tbl) (runes s) (runes t)"


section \<open>Handshake (internal/infrastructure/handshake.go)\<close>

text \<open>
  The header of an \<open>http.Request\<close> maps a field name to the values received for it; the
  model keys it by the names of package protocol. \<open>Header.Get\<close> is the first value of the
  field, and the empty string when the field is absent.
\<close>

type_synonym Header = "string \<rightharpoonup> string list"

record Request =
  Header :: Header

definition Header_Get :: "Header \<Rightarrow> string \<Rightarrow> string" where
  "Header_Get h key = (case h key of None \<Rightarrow> [] | Some [] \<Rightarrow> [] | Some (v # vs) \<Rightarrow> v)"

definition containsToken :: "(rune \<Rightarrow> rune \<Rightarrow> bool) \<Rightarrow> string \<Rightarrow> string \<Rightarrow> bool" where
  "containsToken tbl header token =
     list_ex (\<lambda>t. EqualFold tbl (TrimSpace t) token) (Split header (CHR '',''))"

definition quoted :: "string \<Rightarrow> string" where
  "quoted s = [CHR 0x27] @ s @ [CHR 0x27]"

definition ValidateRequest :: "(rune \<Rightarrow> rune \<Rightarrow> bool) \<Rightarrow> Request \<Rightarrow> go_error option" where
  "ValidateRequest tbl req =
     (let upgrade = Header_Get (Header req) HeaderUpgrade
      in if \<not> EqualFold tbl upgrade HeaderValueWebSocket
         then Some (Errorf (''missing or invalid Upgrade header: expected '' @ quoted ''websocket''
                              @ '', got '' @ quoted upgrade))
         else
           (let connection = Header_Get (Header req) HeaderConnection
            in if \<not> containsToken tbl connection HeaderValueUpgrade
               then Some (Errorf (''missing or invalid Connection header: expected ''
                                    @ quoted ''Upgrade'' @ '', got '' @ quoted connection))
               else
                 (let key = Header_Get (Header req) HeaderSecWebSocketKey
                  in if key = []
                     then Some (Errorf ''missing Sec-WebSocket-Key header'')
                     else
                       (let version = Header_Get (Header req) HeaderSecWebSocketVersion
                        in if version \<noteq> WebSocketVersion
                           then Some (Errorf (''unsupported WebSocket version: expected ''
                                                @ quoted WebSocketVersion @ '', got ''
                                                @ quoted version))
                           else None))))"

section \<open>ASCII case-insensitive comparison\<close>

text \<open>
  The comparison that the specification names for the Upgrade and Connection headers:
  two strings are equal ASCII-case-insensitively when they agree octet by octet after the
  octets of the letters \<open>A\<close> to \<open>Z\<close> are replaced by those of \<open>a\<close> to \<open>z\<close>. It is stated here in the words of the
  specification, to be compared with \<open>EqualFold\<close>; so is the trimming of ASCII white
  space on both sides.
\<close>

definition ascii_lower :: "nat \<Rightarrow> nat" where
  "ascii_lower n = (if 0x41 \<le> n \<and> n \<le> 0x5A then n + 0x20 else n)"

definition ascii_ci_eq :: "string \<Rightarrow> string \<Rightarrow> bool" where
  "ascii_ci_eq s t =
     (map (\<lambda>c. ascii_lower (of_char c)) s = map (\<lambda>c. ascii_lower (of_char c)) t)"

definition ascii_trim :: "string \<Rightarrow> string" where
  "ascii_trim s = rev (dropWhile asciiSpace (rev (dropWhile asciiSpace s)))"

definition is_ascii :: "string \<Rightarrow> bool" where
  "is_ascii s = list_all (\<lambda>c. (of_char c :: nat) < 0x80) s"

section \<open>SHA-1 (package crypto/sha1)\<close>

text \<open>
  \<open>sha1.Sum\<close> is the hash function SHA-1 of FIPS 180-4. Octets and 32-bit words are natural
  numbers here, with the wrap-around of \<open>uint32\<close> written out (\<open>mod 2 ^ 32\<close>). The message
  is padded with the octet 0x80, zero octets up to 56 modulo 64, and its length in bits
  as 8 octets, most significant first; each block of 64 octets is read as 16 words, most
  significant octet first, expanded to 80 words and run through 80 rounds; the digest is
  the five chaining words, most significant octet first: 20 octets.
\<close>

definition add32 :: "nat \<Rightarrow> nat \<Rightarrow> nat" where
  "add32 x y = (x + y) mod 2 ^ 32"

definition not32 :: "nat \<Rightarrow> nat" where
  "not32 x = 2 ^ 32 - 1 - x mod 2 ^ 32"

definition RotateLeft32 :: "nat \<Rightarrow> nat \<Rightarrow> nat" where
  "RotateLeft32 x k = ((x * 2 ^ k) mod 2 ^ 32) OR (x div 2 ^ (32 - k))"

definition PutUint64_nat :: "nat \<Rightarrow> nat list" where
  "PutUint64_nat v =
     [v div 2 ^ 56 mod 256, v div 2 ^ 48 mod 256, v div 2 ^ 40 mod 256, v div 2 ^ 32 mod 256,
      v div 2 ^ 24 mod 256, v div 2 ^ 16 mod 256, v div 2 ^ 8 mod 256, v mod 256]"

definition PutUint32_nat :: "nat \<Rightarrow> nat list" where
  "PutUint32_nat v = [v div 2 ^ 24 mod 256, v div 2 ^ 16 mod 256, v div 2 ^ 8 mod 256, v mod 256]"

definition sha1_padding :: "nat \<Rightarrow> nat list" where
  "sha1_padding len =
     (let t = (if len mod 64 < 56 then 56 - len mod 64 else 64 + 56 - len mod 64)
      in 0x80 # replicate (t - 1) 0 @ PutUint64_nat ((len * 8) mod 2 ^ 64))"

fun be_words :: "nat list \<Rightarrow> nat list" where
  "be_words (b0 # b1 # b2 # b3 # bs) =
     (b0 * 2 ^ 24 OR b1 * 2 ^ 16 OR b2 * 2 ^ 8 OR b3) # be_words bs"
| "be_words bs = []"

text \<open>
  The message schedule, newest word first: word \<open>t\<close> is the rotation by one bit of the XOR
  of the words \<open>t - 3\<close>, \<open>t - 8\<close>, \<open>t - 14\<close> and \<open>t - 16\<close>.
\<close>

fun sha1_expand :: "nat \<Rightarrow> nat list \<Rightarrow> nat list" where
  "sha1_expand n ws =
     (if n = 0 then ws
      else sha1_expand (n - 1)
             (RotateLeft32 (ws ! 2 XOR ws ! 7 XOR ws ! 13 XOR ws ! 15) 1 # ws))"

declare sha1_expand.simps [simp del]

type_synonym sha1_state = "nat \<times> nat \<times> nat \<times> nat \<times> nat"

text \<open>The function and the constant of round \<open>i\<close>.\<close>

definition sha1_f :: "nat \<Rightarrow> nat \<Rightarrow> nat \<Rightarrow> nat \<Rightarrow> nat" where
  "sha1_f i b c d =
     (if i < 20 then (b AND c) OR (not32 b AND d)
      else if i < 40 then b XOR c XOR d
      else if i < 60 then ((b OR c) AND d) OR (b AND c)
      else b XOR c XOR d)"

definition sha1_K :: "nat \<Rightarrow> nat" where
  "sha1_K i =
     (if i < 20 then 0x5A827999
      else if i < 40 then 0x6ED9EBA1
      else if i < 60 then 0x8F1BBCDC
      else 0xCA62C1D6)"

fun sha1_round :: "nat \<Rightarrow> nat \<Rightarrow> sha1_state \<Rightarrow> sha1_state" where
  "sha1_round i w (a, b, c, d, e) =
     (add32 (add32 (add32 (add32 (RotateLeft32 a 5) (sha1_f i b c d)) e) w) (sha1_K i),
      a, RotateLeft32 b 30, c, d)"

fun sha1_rounds :: "nat \<Rightarrow> nat list \<Rightarrow> sha1_state \<Rightarrow> sha1_state" where
  "sha1_rounds i [] s = s"
| "sha1_rounds i (w # ws) s = sha1_rounds (i + 1) ws (sha1_round i w s)"

fun sha1_add :: "sha1_state \<Rightarrow> sha1_state \<Rightarrow> sha1_state" where
  "sha1_add (h0, h1, h2, h3, h4) (a, b, c, d, e) =
     (add32 h0 a, add32 h1 b, add32 h2 c, add32 h3 d, add32 h4 e)"

definition sha1_block :: "sha1_state \<Rightarrow> nat list \<Rightarrow> sha1_state" where
  "sha1_block h p =
     sha1_add h (sha1_rounds 0 (rev (sha1_expand 64 (rev (be_words p)))) h)"

function sha1_blocks :: "sha1_state \<Rightarrow> nat list \<Rightarrow> sha1_state" where
  "sha1_blocks h p =
     (if length p \<ge> 64 then sha1_blocks (sha1_block h (take 64 p)) (drop 64 p) else h)"
  by pat_completeness auto
termination
  by (relation "measure (\<lambda>(h, p). length p)") auto

declare sha1_blocks.simps [simp del]

definition sha1_init :: sha1_state where
  "sha1_init = (0x67452301, 0xEFCDAB89, 0x98BADCFE, 0x10325476, 0xC3D2E1F0)"

fun sha1_digest :: "sha1_state \<Rightarrow> nat list" where
  "sha1_digest (h0, h1, h2, h3, h4) =
     PutUint32_nat h0 @ PutUint32_nat h1 @ PutUint32_nat h2 @ PutUint32_nat h3 @ PutUint32_nat h4"

definition sha1_Sum :: "nat list \<Rightarrow> nat list" where
  "sha1_Sum data = sha1_digest (sha1_blocks sha1_init (data @ sha1_padding (length data)))"

section \<open>Base64 (package encoding/base64, StdEncoding)\<close>

text \<open>
  The standard encoding of RFC 4648 with padding: three octets give four characters of
  the alphabet, a final group of one or two octets is filled up with \<open>=\<close>.
\<close>

definition encodeStd :: string where
  "encodeStd = ''ABCDEFGHIJKLMNOPQRSTUVWXYZabcdefghijklmnopqrstuvwxyz0123456789+/''"

definition b64_char :: "nat \<Rightarrow> char" where
  "b64_char v = encodeStd ! (v mod 64)"

fun EncodeToString :: "nat list \<Rightarrow> string" where
  "EncodeToString (a # b # c # rest) =
     [b64_char (a div 4),
      b64_char (a mod 4 * 16 + b div 16),
      b64_char (b mod 16 * 4 + c div 64),
      b64_char (c mod 64)] @ EncodeToString rest"
| "EncodeToString [a, b] =
     [b64_char (a div 4),
      b64_char (a mod 4 * 16 + b div 16),
      b64_char (b mod 16 * 4),
      CHR ''='']"
| "EncodeToString [a] =
     [b64_char (a div 4),
      b64_char (a mod 4 * 16),
      CHR ''='', CHR ''='']"
| "EncodeToString [] = []"

section \<open>Accept key (internal/infrastructure/handshake.go)\<close>

text \<open>\<open>[]byte(s)\<close>: the octets of a string, as numbers.\<close>

definition bytes_of :: "string \<Rightarrow> nat list" where
  "bytes_of s = map of_char s"

definition GenerateAcceptKey :: "string \<Rightarrow> string" where
  "GenerateAcceptKey key =
     (let combined = key @ WebSocketGUID;
          hash = sha1_Sum (bytes_of combined)
      in EncodeToString hash)"

section \<open>Basic facts\<close>

lemmas State_defs = StateConnecting_def StateOpen_def StateClosing_def StateClosed_def

lemmas Opcode_defs = OpcodeContinuation_def OpcodeText_def OpcodeBinary_def
  OpcodeClose_def OpcodePing_def OpcodePong_def

section \<open>Properties of the connection state machine\<close>

text \<open>
  C3. For every connection and every target state, \<open>TransitionTo\<close> succeeds and sets the
  state to the target exactly when the pair (current state, target) is one of
  Connecting-Open, Connecting-Closed, Open-Closing, Open-Closed, Closing-Closed; in every
  other case (a step from a state to itself, a step out of Closed, values that are none of the four
  constants) it returns an error that wraps \<open>ErrInvalidState\<close> and the connection is
  unchanged. A connection made by \<open>NewConnection\<close> is in state Connecting.
\<close>

theorem TransitionTo_matrix:
  "(fst (TransitionTo c to) = None) =
     ((State c, to) \<in> {(StateConnecting, StateOpen), (StateConnecting, StateClosed),
                        (StateOpen, StateClosing), (StateOpen, StateClosed),
                        (StateClosing, StateClosed)})
   \<and> (if fst (TransitionTo c to) = None
      then snd (TransitionTo c to) = c\<lparr>State := to\<rparr>
      else (\<exists>e. fst (TransitionTo c to) = Some e \<and> errors_Is e ErrInvalidState)
           \<and> snd (TransitionTo c to) = c)
   \<and> State (NewConnection cid remoteAddr now :: 'v Connection) = StateConnecting"
  by (simp add: TransitionTo_def CanTransitionTo_def NewConnection_def State_defs)

text \<open>
  The matrix at concrete states: the five permitted transitions succeed, and a self-loop,
  a backward step and a step out of Closed fail and leave the state as it was.
\<close>

theorem TransitionTo_matrix_witness:
  "fst (TransitionTo (NewConnection ''c1'' ''1.2.3.4:5678'' 0 :: unit Connection) StateOpen) = None
   \<and> State (snd (TransitionTo (NewConnection ''c1'' ''1.2.3.4:5678'' 0 :: unit Connection) StateOpen)) = StateOpen
   \<and> fst (TransitionTo (NewConnection ''c1'' ''1.2.3.4:5678'' 0 :: unit Connection) StateClosing) \<noteq> None
   \<and> snd (TransitionTo (NewConnection ''c1'' ''1.2.3.4:5678'' 0 :: unit Connection) StateClosing)
       = NewConnection ''c1'' ''1.2.3.4:5678'' 0"
  using TransitionTo_matrix [of "NewConnection ''c1'' ''1.2.3.4:5678'' 0 :: unit Connection" StateOpen]
    TransitionTo_matrix [of "NewConnection ''c1'' ''1.2.3.4:5678'' 0 :: unit Connection" StateClosing]
  by (simp add: TransitionTo_def CanTransitionTo_def NewConnection_def State_defs)

text \<open>
  C9, as the code has it. \<open>UpdateActivity\<close> has no guard on the state: in every state,
  Closed included, it sets \<open>LastActivity\<close> to the instant read from the clock and changes
  no other field.
\<close>

theorem UpdateActivity_every_state:
  "LastActivity (UpdateActivity c now) = now
   \<and> ID (UpdateActivity c now) = ID c
   \<and> RemoteAddr (UpdateActivity c now) = RemoteAddr c
   \<and> State (UpdateActivity c now) = State c
   \<and> Metadata (UpdateActivity c now) = Metadata c
   \<and> UpdateActivity c now = c\<lparr>LastActivity := now\<rparr>"
  by (simp add: UpdateActivity_def)

text \<open>
  C9 as stated fails on a closed connection: the call is not a no-op there, the timestamp
  moves from 0 to 5.
\<close>

theorem UpdateActivity_Closed_counterexample:
  "State (\<lparr> ID = ''c1'', RemoteAddr = ''1.2.3.4:5678'', State = StateClosed,
            LastActivity = 0, Metadata = Map.empty \<rparr> :: unit Connection) = StateClosed
   \<and> UpdateActivity (\<lparr> ID = ''c1'', RemoteAddr = ''1.2.3.4:5678'', State = StateClosed,
            LastActivity = 0, Metadata = Map.empty \<rparr> :: unit Connection) 5
     \<noteq> \<lparr> ID = ''c1'', RemoteAddr = ''1.2.3.4:5678'', State = StateClosed,
            LastActivity = 0, Metadata = Map.empty \<rparr>"
  by (simp add: UpdateActivity_def)

section \<open>Properties of messages\<close>

text \<open>
  C10. \<open>ToOpcode\<close> is total: for every message, whatever its kind tag, it returns an opcode,
  namely 0x1 for Text and 0x2 for every other tag, Binary and the tags that
  \<open>Message_Validate\<close> rejects included.
\<close>

theorem ToOpcode_total:
  "ToOpcode m = (if Type m = MessageTypeText then 0x1 else 0x2)
   \<and> (Message_Validate m = Some (Sentinel ErrInvalidMessageType))
       = (Type m \<noteq> MessageTypeText \<and> Type m \<noteq> MessageTypeBinary)
   \<and> (Message_Validate m \<noteq> None \<longrightarrow> ToOpcode m = OpcodeBinary)"
  by (simp add: ToOpcode_def Message_Validate_def Opcode_defs)

theorem ToOpcode_total_witness:
  "Message_Validate \<lparr> Type = 99, MPayload = [] \<rparr> \<noteq> None
   \<and> ToOpcode \<lparr> Type = 99, MPayload = [] \<rparr> = 0x2
   \<and> ToOpcode (NewTextMessage []) = 0x1
   \<and> ToOpcode (NewBinaryMessage []) = 0x2"
  using ToOpcode_total [of "\<lparr> Type = 99, MPayload = [] \<rparr>"]
    ToOpcode_total [of "NewTextMessage []"] ToOpcode_total [of "NewBinaryMessage []"]
  by (simp add: Message_Validate_def MessageTypeText_def MessageTypeBinary_def
      NewTextMessage_def NewBinaryMessage_def Opcode_defs)

section \<open>Facts about the frame codec\<close>

lemma Uint16_PutUint16: "Uint16 (PutUint16 v) = v"
  unfolding Uint16_def PutUint16_def
  apply simp
  apply (rule bit_word_eqI)
  apply (auto simp add: bit_simps)
  done

lemma Uint64_PutUint64: "Uint64 (PutUint64 v) = v"
proof (rule bit_word_eqI)
  fix n :: nat
  assume "n < LENGTH(64)"
  then have n: "n < 64" by simp
  have split: "bit (Uint64 (PutUint64 v)) n =
        (n < 8 \<and> bit v n \<or>
         8 \<le> n \<and> n - 8 < 64 \<and> n - 8 < 8 \<and> bit v (8 + (n - 8)) \<or>
         16 \<le> n \<and> n - 16 < 64 \<and> n - 16 < 8 \<and> bit v (16 + (n - 16)) \<or>
         24 \<le> n \<and> n - 24 < 64 \<and> n - 24 < 8 \<and> bit v (24 + (n - 24)) \<or>
         32 \<le> n \<and> n - 32 < 64 \<and> n - 32 < 8 \<and> bit v (32 + (n - 32)) \<or>
         40 \<le> n \<and> n - 40 < 64 \<and> n - 40 < 8 \<and> bit v (40 + (n - 40)) \<or>
         48 \<le> n \<and> n - 48 < 64 \<and> n - 48 < 8 \<and> bit v (48 + (n - 48)) \<or>
         56 \<le> n \<and> n - 56 < 64 \<and> n - 56 < 8 \<and> bit v (56 + (n - 56)))"
    using n by (simp add: Uint64_def PutUint64_def bit_simps)
  from n consider "n < 8" | "8 \<le> n" "n < 16" | "16 \<le> n" "n < 24" | "24 \<le> n" "n < 32"
    | "32 \<le> n" "n < 40" | "40 \<le> n" "n < 48" | "48 \<le> n" "n < 56" | "56 \<le> n" "n < 64"
    by linarith
  then show "bit (Uint64 (PutUint64 v)) n = bit v n"
    by cases (auto simp add: split)
qed

lemma unmask_from_length: "length (unmask_from i p k) = length p"
  by (induction p arbitrary: i) simp_all

lemma unmask_from_involution: "unmask_from i (unmask_from i p k) k = p"
  by (induction p arbitrary: i) (simp_all add: xor.assoc)

lemma bit_0x80: "bit (0x80 :: 'a::semiring_bits) n = (possible_bit TYPE('a) n \<and> n = 7)"
  using bit_exp_iff [where ?'a = 'a, of 7 n] by simp

lemma small_len_take_bit:
  fixes w :: uint64
  assumes "w \<le> 125"
  shows "take_bit 7 w = w"
proof -
  have "w < 2 ^ 7" using assms by (simp add: word_le_nat_alt word_less_nat_alt)
  then show ?thesis by (simp add: take_bit_eq_mask less_mask_eq)
qed

lemma low7_small:
  fixes w :: uint64
  assumes "w \<le> 125"
  shows "(ucast (((0x80::byte) OR ucast w) AND 0x7F) :: uint64) = w"
    and "(ucast (((0::byte) OR ucast w) AND 0x7F) :: uint64) = w"
    and "(((0x80::byte) OR ucast w) AND 0x80) \<noteq> 0"
    and "(((0::byte) OR ucast w) AND 0x80) = 0"
proof -
  have tb: "take_bit 7 w = w" by (rule small_len_take_bit [OF assms])
  have m7: "(0x7F :: byte) = mask 7" by (simp add: mask_eq_exp_minus_1)
  show "(ucast (((0x80::byte) OR ucast w) AND 0x7F) :: uint64) = w"
    apply (subst (2) tb [symmetric])
    apply (rule bit_word_eqI)
    apply (simp only: m7)
    apply (auto simp add: bit_simps bit_0x80)
    done
  show "(ucast (((0::byte) OR ucast w) AND 0x7F) :: uint64) = w"
    apply (subst (2) tb [symmetric])
    apply (rule bit_word_eqI)
    apply (simp only: m7)
    apply (auto simp add: bit_simps)
    done
  have "bit (((0x80::byte) OR ucast w) AND 0x80) 7"
    by (simp add: bit_simps bit_0x80)
  then show "(((0x80::byte) OR ucast w) AND 0x80) \<noteq> 0"
    by auto
  show "(((0::byte) OR ucast w) AND 0x80) = 0"
    apply (subst tb [symmetric])
    apply (rule bit_word_eqI)
    apply (auto simp add: bit_simps bit_0x80)
    done
qed

lemma ucast16_id:
  fixes w :: uint64
  assumes "w \<le> 65535"
  shows "(ucast (ucast w :: uint16) :: uint64) = w"
proof -
  have "w < 2 ^ 16" using assms by (simp add: word_le_nat_alt word_less_nat_alt)
  then have tb: "take_bit 16 w = w" by (simp add: take_bit_eq_mask less_mask_eq)
  show ?thesis
    apply (subst (2) tb [symmetric])
    apply (rule bit_word_eqI)
    apply (auto simp add: bit_simps)
    done
qed


lemma ReadFull_append: "length a = n \<Longrightarrow> ReadFull (a @ t) n = (Inr a, t)"
  by (simp add: ReadFull_def)

lemma ReadFull_two: "ReadFull (b0 # b1 # t) 2 = (Inr [b0, b1], t)"
  using ReadFull_append [of "[b0, b1]" 2 t] by simp

lemma parse_small: "n \<le> 125 \<Longrightarrow> parsePayloadLength fp t n = (Inr n, t)"
  by (auto simp add: parsePayloadLength_def PayloadLen16Bit_def PayloadLen64Bit_def)

lemma parse_16: "parsePayloadLength fp (PutUint16 v @ t) 126 = (Inr (ucast v), t)"
  using ReadFull_append [of "PutUint16 v" 2 t] Uint16_PutUint16 [of v]
  by (simp add: parsePayloadLength_def PayloadLen16Bit_def PayloadLen64Bit_def PutUint16_def)

lemma parse_64: "parsePayloadLength fp (PutUint64 v @ t) 127 = (Inr v, t)"
  using ReadFull_append [of "PutUint64 v" 8 t] Uint64_PutUint64 [of v]
  by (simp add: parsePayloadLength_def PayloadLen16Bit_def PayloadLen64Bit_def PutUint64_def)

lemma first_octet:
  assumes "isValidOpcode f"
  shows "(((if FIN f then Opcode f OR 0x80 else Opcode f) AND 0x80) \<noteq> 0) = FIN f"
    and "((if FIN f then Opcode f OR 0x80 else Opcode f) AND 0x40) = 0"
    and "((if FIN f then Opcode f OR 0x80 else Opcode f) AND 0x20) = 0"
    and "((if FIN f then Opcode f OR 0x80 else Opcode f) AND 0x10) = 0"
    and "((if FIN f then Opcode f OR 0x80 else Opcode f) AND 0x0F) = Opcode f"
    and "IsControl (Opcode f) \<or> IsData (Opcode f)"
proof -
  from assms consider "Opcode f = 0" | "Opcode f = 1" | "Opcode f = 2"
    | "Opcode f = 8" | "Opcode f = 9" | "Opcode f = 10"
    by (auto simp add: isValidOpcode_def Opcode_defs split: if_splits)
  then have "(((if FIN f then Opcode f OR 0x80 else Opcode f) AND 0x80) \<noteq> 0) = FIN f
    \<and> ((if FIN f then Opcode f OR 0x80 else Opcode f) AND 0x40) = 0
    \<and> ((if FIN f then Opcode f OR 0x80 else Opcode f) AND 0x20) = 0
    \<and> ((if FIN f then Opcode f OR 0x80 else Opcode f) AND 0x10) = 0
    \<and> ((if FIN f then Opcode f OR 0x80 else Opcode f) AND 0x0F) = Opcode f
    \<and> (IsControl (Opcode f) \<or> IsData (Opcode f))"
    by cases (simp_all add: IsControl_def IsData_def)
  then show "(((if FIN f then Opcode f OR 0x80 else Opcode f) AND 0x80) \<noteq> 0) = FIN f"
    and "((if FIN f then Opcode f OR 0x80 else Opcode f) AND 0x40) = 0"
    and "((if FIN f then Opcode f OR 0x80 else Opcode f) AND 0x20) = 0"
    and "((if FIN f then Opcode f OR 0x80 else Opcode f) AND 0x10) = 0"
    and "((if FIN f then Opcode f OR 0x80 else Opcode f) AND 0x0F) = Opcode f"
    and "IsControl (Opcode f) \<or> IsData (Opcode f)"
    by blast+
qed


lemma ReadFrame_two:
  "ReadFrame fp (b0 # b1 # t) =
     (if \<not> IsControl (b0 AND 0x0F) \<and> \<not> IsData (b0 AND 0x0F) then (Inl (Sentinel ErrInvalidOpcode), t)
      else if (b0 AND 0x40) \<noteq> 0 \<or> (b0 AND 0x20) \<noteq> 0 \<or> (b0 AND 0x10) \<noteq> 0
        then (Inl (Sentinel ErrReservedBitsSet), t)
      else
        (case parsePayloadLength fp t (ucast (b1 AND 0x7F)) of
           (Inl err, r2) \<Rightarrow> (Inl err, r2)
         | (Inr payloadLen, r2) \<Rightarrow>
             if payloadLen > maxPayloadSize fp then (Inl (Sentinel ErrPayloadTooLarge), r2)
             else if IsControl (b0 AND 0x0F) \<and> payloadLen > 125
               then (Inl (Sentinel ErrInvalidFrameStructure), r2)
             else if IsControl (b0 AND 0x0F) \<and> \<not> ((b0 AND 0x80) \<noteq> 0)
               then (Inl (Sentinel ErrInvalidFrameStructure), r2)
             else
               (case (if (b1 AND 0x80) \<noteq> 0
                      then (case ReadFull r2 4 of
                              (Inl err, r3) \<Rightarrow> (Inl err, r3)
                            | (Inr kb, r3) \<Rightarrow> (Inr (key_of_bytes kb), r3))
                      else (Inr (0, 0, 0, 0), r2)) of
                  (Inl err, r3) \<Rightarrow> (Inl err, r3)
                | (Inr maskingKey, r3) \<Rightarrow>
                    (case (if payloadLen > 0
                           then (case ReadFull r3 (unat payloadLen) of
                                   (Inl err, r4) \<Rightarrow> (Inl err, r4)
                                 | (Inr buf, r4) \<Rightarrow>
                                     (Inr (if (b1 AND 0x80) \<noteq> 0 then UnmaskPayload buf maskingKey else buf), r4))
                           else (Inr [], r3)) of
                       (Inl err, r4) \<Rightarrow> (Inl err, r4)
                     | (Inr payload, r4) \<Rightarrow>
                         (Inr \<lparr> FIN = (b0 AND 0x80) \<noteq> 0, RSV1 = (b0 AND 0x40) \<noteq> 0,
                                RSV2 = (b0 AND 0x20) \<noteq> 0, RSV3 = (b0 AND 0x10) \<noteq> 0,
                                Opcode = b0 AND 0x0F, Masked = (b1 AND 0x80) \<noteq> 0,
                                PayloadLen = payloadLen,
                                MaskingKey = maskingKey, Payload = payload \<rparr>, r4)))))"
  unfolding ReadFrame_def ReadFull_two by (simp add: Let_def)

lemma unat_pos: "(0 < (n::uint64)) = (0 < unat n)"
  by (simp add: word_less_nat_alt)

lemma PutUint16_ucast: "PutUint16 (ucast (n :: uint64)) = [ucast (drop_bit 8 n), ucast n]"
proof -
  have "(ucast (drop_bit 8 (ucast n :: uint16)) :: byte) = ucast (drop_bit 8 n)"
    by (rule bit_word_eqI) (auto simp add: bit_simps)
  moreover have "(ucast (ucast n :: uint16) :: byte) = ucast n"
    by (rule bit_word_eqI) (auto simp add: bit_simps)
  ultimately show ?thesis by (simp add: PutUint16_def)
qed

lemma WriteFrame_octets:
  assumes val: "Frame_Validate f = None"
  shows "WriteFrame fp w f =
     (None, w @ octet0 f #
        (if PayloadLen f \<le> 125 then len_field7 f
         else if PayloadLen f \<le> 65535 then len_field16 f
         else len_field64 f) @ key_octets f @ payload_octets f)"
proof -
  have rsv: "\<not> RSV1 f" "\<not> RSV2 f" "\<not> RSV3 f"
    using val by (auto simp add: Frame_Validate_def split: if_splits)
  have hdr: "frame_header f = octet0 f #
        (if PayloadLen f \<le> 125 then len_field7 f
         else if PayloadLen f \<le> 65535 then len_field16 f
         else len_field64 f) @ key_octets f"
    using rsv by (simp add: frame_header_def Let_def PutUint16_ucast PutUint64_def
        PayloadLen16Bit_def PayloadLen64Bit_def)
  show ?thesis
    using val hdr by (auto simp add: WriteFrame_def Write_def Let_def UnmaskPayload_def)
qed

lemma ReadFrame_encoded:
  assumes op: "isValidOpcode f"
    and rsv: "\<not> RSV1 f" "\<not> RSV2 f" "\<not> RSV3 f"
    and len: "length (Payload f) = unat (PayloadLen f)"
    and mx: "PayloadLen f \<le> maxPayloadSize fp"
    and ctl: "IsControl (Opcode f) \<longrightarrow> PayloadLen f \<le> 125 \<and> FIN f"
    and enc: "lenf = len_field7 f \<and> PayloadLen f \<le> 125
            \<or> lenf = len_field16 f \<and> PayloadLen f \<le> 65535
            \<or> lenf = len_field64 f"
  shows "ReadFrame fp (octet0 f # lenf @ key_octets f @ payload_octets f @ rest)
        = (Inr (f\<lparr>MaskingKey := (if Masked f then MaskingKey f else (0, 0, 0, 0))\<rparr>), rest)"
proof -
  define b0 where "b0 = octet0 f"
  define mb :: byte where "mb = mask_bit f"
  define kb where "kb = key_octets f"
  define pl where "pl = payload_octets f"
  have b0_fin: "((b0 AND 0x80) \<noteq> 0) = FIN f"
    and b0_rsv: "(b0 AND 0x40) = 0" "(b0 AND 0x20) = 0" "(b0 AND 0x10) = 0"
    and b0_op: "(b0 AND 0x0F) = Opcode f"
    and b0_kind: "IsControl (Opcode f) \<or> IsData (Opcode f)"
    unfolding b0_def using first_octet [OF op] by blast+
  have mb_low: "(mb OR 126) AND 0x7F = 126" "(mb OR 127) AND 0x7F = 127"
    and mb_high: "(((mb OR 126) AND 0x80) \<noteq> 0) = Masked f" "(((mb OR 127) AND 0x80) \<noteq> 0) = Masked f"
    by (simp_all add: mb_def)
  have "\<exists>b1 ext. lenf = b1 # ext
          \<and> (\<forall>t. parsePayloadLength fp (ext @ t) (ucast (b1 AND 0x7F)) = (Inr (PayloadLen f), t))
          \<and> ((b1 AND 0x80) \<noteq> 0) = Masked f"
    using enc
  proof (elim disjE conjE)
    assume l: "lenf = len_field7 f" and small: "PayloadLen f \<le> 125"
    have "(ucast ((mb OR ucast (PayloadLen f)) AND 0x7F) :: uint64) = PayloadLen f"
      and "(((mb OR ucast (PayloadLen f)) AND 0x80) \<noteq> 0) = Masked f"
      using low7_small [OF small] by (simp_all add: mb_def)
    then show ?thesis
      using l parse_small [OF small, of fp] by (simp add: mb_def)
  next
    assume l: "lenf = len_field16 f" and small: "PayloadLen f \<le> 65535"
    have "parsePayloadLength fp (PutUint16 (ucast (PayloadLen f)) @ t) 126 = (Inr (PayloadLen f), t)" for t
      using parse_16 [of fp "ucast (PayloadLen f)" t] ucast16_id [OF small] by simp
    then show ?thesis
      using l mb_low mb_high by (simp add: mb_def PutUint16_ucast)
  next
    assume l: "lenf = len_field64 f"
    then show ?thesis
      using mb_low mb_high parse_64 [of fp "PayloadLen f"]
      by (simp add: mb_def PutUint64_def)
  qed
  then obtain b1 ext where lenf_eq: "lenf = b1 # ext"
    and pp: "\<And>t. parsePayloadLength fp (ext @ t) (ucast (b1 AND 0x7F)) = (Inr (PayloadLen f), t)"
    and b1_mask: "((b1 AND 0x80) \<noteq> 0) = Masked f"
    by blast
  have key: "Masked f \<Longrightarrow> ReadFull (kb @ pl @ rest) 4 = (Inr (key_bytes (MaskingKey f)), pl @ rest)"
    using ReadFull_append [of "key_bytes (MaskingKey f)" 4 "pl @ rest"]
    by (cases "MaskingKey f") (simp add: kb_def)
  have key_rt: "key_of_bytes (key_bytes (MaskingKey f)) = MaskingKey f"
    by (cases "MaskingKey f") (simp add: key_of_bytes_def)
  have pl_len: "length pl = unat (PayloadLen f)"
    using len by (simp add: pl_def UnmaskPayload_def unmask_from_length)
  have body: "ReadFull (pl @ rest) (unat (PayloadLen f)) = (Inr pl, rest)"
    using ReadFull_append [OF pl_len] .
  have unm: "Masked f \<Longrightarrow> UnmaskPayload pl (MaskingKey f) = Payload f"
    by (simp add: pl_def UnmaskPayload_def unmask_from_involution)
  have empty: "\<not> 0 < PayloadLen f \<Longrightarrow> Payload f = [] \<and> pl = []"
    using len pl_len by (simp add: unat_pos)
  have nctl: "\<not> (IsControl (Opcode f) \<and> PayloadLen f > 125)" "\<not> (IsControl (Opcode f) \<and> \<not> FIN f)"
    using ctl by auto
  have nmx: "\<not> PayloadLen f > maxPayloadSize fp"
    using mx by simp
  have rd: "ReadFrame fp (b0 # b1 # ext @ kb @ pl @ rest)
        = (Inr (f\<lparr>MaskingKey := (if Masked f then MaskingKey f else (0, 0, 0, 0))\<rparr>), rest)"
  proof (cases "Masked f")
    case True
    show ?thesis
      unfolding ReadFrame_two
      using True b0_fin b0_rsv b0_op b0_kind pp [of "kb @ pl @ rest"] b1_mask key [OF True] key_rt
        body unm [OF True] empty nctl nmx rsv
      by (cases "0 < PayloadLen f") simp_all
  next
    case False
    then have "kb = []" "pl = Payload f" by (simp_all add: kb_def pl_def)
    then show ?thesis
      unfolding ReadFrame_two
      using False b0_fin b0_rsv b0_op b0_kind pp [of "pl @ rest"] b1_mask
        body empty nctl nmx rsv
      by (cases "0 < PayloadLen f") simp_all
  qed
  show ?thesis
    using rd lenf_eq unfolding b0_def kb_def pl_def by simp
qed

lemma ucast_byte_back: "(ucast (ucast (b :: byte) :: uint64) :: byte) = b"
  by (rule bit_word_eqI) (auto simp add: bit_simps)

lemma ucast_byte_eq_126: "((ucast (b :: byte) :: uint64) = 126) = (b = 126)"
proof
  assume "(ucast b :: uint64) = 126"
  then have "(ucast (ucast b :: uint64) :: byte) = ucast (126 :: uint64)" by simp
  then show "b = 126" by (simp add: ucast_byte_back)
next
  assume "b = 126"
  then show "(ucast b :: uint64) = 126" by simp
qed

lemma ucast_byte_eq_127: "((ucast (b :: byte) :: uint64) = 127) = (b = 127)"
proof
  assume "(ucast b :: uint64) = 127"
  then have "(ucast (ucast b :: uint64) :: byte) = ucast (127 :: uint64)" by simp
  then show "b = 127" by (simp add: ucast_byte_back)
next
  assume "b = 127"
  then show "(ucast b :: uint64) = 127" by simp
qed

section \<open>Properties of the frame codec\<close>

text \<open>
  C4, as the code has it. A codec made with \<open>NewFrameParser M\<close> has the limit \<open>M\<close>, or
  1048576 when \<open>M = 0\<close>. When the two header octets pass the opcode check and the reserved-bit
  check of \<open>ReadFrame\<close>, the length field is complete in the source, and the length it
  declares exceeds the limit, \<open>ReadFrame\<close> fails with \<open>ErrPayloadTooLarge\<close>; the source is
  left right after the length field (after 0, 2 or 8 extension octets), so no octet of the
  masking key or of the payload has been consumed.
\<close>

theorem ReadFrame_PayloadTooLarge:
  assumes opc: "IsControl (b0 AND 0x0F) \<or> IsData (b0 AND 0x0F)"
    and rsv: "b0 AND 0x40 = 0" "b0 AND 0x20 = 0" "b0 AND 0x10 = 0"
    and complete: "(b1 AND 0x7F = 126 \<longrightarrow> 2 \<le> length t) \<and> (b1 AND 0x7F = 127 \<longrightarrow> 8 \<le> length t)"
    and big: "(if b1 AND 0x7F = 126 then ucast (Uint16 (take 2 t))
               else if b1 AND 0x7F = 127 then Uint64 (take 8 t)
               else ucast (b1 AND 0x7F))
              > (if M = 0 then 1048576 else M)"
  shows "ReadFrame (NewFrameParser M) (b0 # b1 # t)
           = (Inl (Sentinel ErrPayloadTooLarge),
              drop (if b1 AND 0x7F = 126 then 2 else if b1 AND 0x7F = 127 then 8 else 0) t)
         \<and> maxPayloadSize (NewFrameParser M) = (if M = 0 then 1048576 else M)"
proof -
  have mps: "maxPayloadSize (NewFrameParser M) = (if M = 0 then 1048576 else M)"
    by (simp add: NewFrameParser_def MaxPayloadSize_def)
  have pp: "parsePayloadLength (NewFrameParser M) t (ucast (b1 AND 0x7F))
      = (Inr (if b1 AND 0x7F = 126 then ucast (Uint16 (take 2 t))
               else if b1 AND 0x7F = 127 then Uint64 (take 8 t)
               else ucast (b1 AND 0x7F)),
         drop (if b1 AND 0x7F = 126 then 2 else if b1 AND 0x7F = 127 then 8 else 0) t)"
    using complete
    by (simp add: parsePayloadLength_def PayloadLen16Bit_def PayloadLen64Bit_def ReadFull_def
        ucast_byte_eq_126 ucast_byte_eq_127)
  show ?thesis
    unfolding ReadFrame_two pp using opc rsv big mps by simp
qed


text \<open>
  The oversize scenario: limit 1000, a text frame declaring 2001 octets in the 64-bit
  encoding; the three octets that follow the length field are still in the source.
\<close>

theorem ReadFrame_PayloadTooLarge_witness:
  "ReadFrame (NewFrameParser 1000) [0x81, 0x7F, 0, 0, 0, 0, 0, 0, 0x07, 0xD1, 0xAA, 0xBB, 0xCC]
     = (Inl (Sentinel ErrPayloadTooLarge), [0xAA, 0xBB, 0xCC])"
  using ReadFrame_PayloadTooLarge
    [of "0x81" "0x7F" "[0, 0, 0, 0, 0, 0, 0x07, 0xD1, 0xAA, 0xBB, 0xCC]" 1000]
  by (simp add: IsControl_def IsData_def Uint64_def)

text \<open>
  C4 as stated fails when an earlier check fails: with limit 10, a header declaring 11
  payload octets but carrying the opcode 0x3 is rejected with \<open>ErrInvalidOpcode\<close>, and one
  with RSV1 set with \<open>ErrReservedBitsSet\<close>, not with \<open>ErrPayloadTooLarge\<close>.
\<close>

theorem PayloadTooLarge_not_first_counterexample:
  "(ucast ((0x0B :: byte) AND 0x7F) :: uint64) > maxPayloadSize (NewFrameParser 10)
   \<and> ReadFrame (NewFrameParser 10) [0x83, 0x0B, 1, 2, 3, 4, 5, 6, 7, 8, 9, 10, 11]
       = (Inl (Sentinel ErrInvalidOpcode), [1, 2, 3, 4, 5, 6, 7, 8, 9, 10, 11])
   \<and> ReadFrame (NewFrameParser 10) [0xC1, 0x0B, 1, 2, 3, 4, 5, 6, 7, 8, 9, 10, 11]
       = (Inl (Sentinel ErrReservedBitsSet), [1, 2, 3, 4, 5, 6, 7, 8, 9, 10, 11])"
  by (simp add: ReadFrame_two IsControl_def IsData_def NewFrameParser_def)

text \<open>
  C5 at the octets 0x8B 0x00 (FIN set, opcode 0xB, no payload). The opcode is not one of
  0x0, 0x1, 0x2, 0x8, 0x9, 0xA, and \<open>Frame_Validate\<close> rejects the frame with
  \<open>ErrInvalidOpcode\<close>; \<open>ReadFrame\<close> tests \<open>IsControl\<close> (opcode at least 0x8) and \<open>IsData\<close>
  (opcode at most 0x2) instead of the set, and returns the frame without error.
\<close>

theorem ReadFrame_accepts_opcode_0xB:
  "ReadFrame (NewFrameParser 0) [0x8B, 0x00]
     = (Inr \<lparr> FIN = True, RSV1 = False, RSV2 = False, RSV3 = False, Opcode = 0xB,
            Masked = False, PayloadLen = 0, MaskingKey = (0, 0, 0, 0), Payload = [] \<rparr>, [])
   \<and> Frame_Validate \<lparr> FIN = True, RSV1 = False, RSV2 = False, RSV3 = False, Opcode = 0xB,
            Masked = False, PayloadLen = 0, MaskingKey = (0, 0, 0, 0), Payload = [] \<rparr>
     = Some (Sentinel ErrInvalidOpcode)"
  by (simp add: ReadFrame_two parse_small IsControl_def IsData_def NewFrameParser_def
      MaxPayloadSize_def Frame_Validate_def isValidOpcode_def Opcode_defs)

text \<open>
  C1, as the code has it. A frame that is structurally valid (recognised opcode, no reserved
  bit, payload of the declared length, control frames final and of at most 125 octets) and
  within the size limit of the codec is written without error, and reading the written
  octets, whatever follows them in the source, yields the frame again: every field and the
  payload octet by octet, for masked and unmasked frames alike. The one field that does not
  travel is the masking key of an unmasked frame, which is not written and reads back as
  four zero octets. The source is left at the first octet after the frame.
\<close>

theorem ReadFrame_WriteFrame_roundtrip:
  assumes op: "isValidOpcode f"
    and rsv: "\<not> RSV1 f" "\<not> RSV2 f" "\<not> RSV3 f"
    and len: "length (Payload f) = unat (PayloadLen f)"
    and mx: "PayloadLen f \<le> maxPayloadSize fp"
    and ctl: "IsControl (Opcode f) \<longrightarrow> PayloadLen f \<le> 125 \<and> FIN f"
  shows "fst (WriteFrame fp [] f) = None
    \<and> ReadFrame fp (snd (WriteFrame fp [] f) @ rest)
        = (Inr (f\<lparr>MaskingKey := (if Masked f then MaskingKey f else (0, 0, 0, 0))\<rparr>), rest)"
proof -
  have val: "Frame_Validate f = None"
    using op rsv len ctl by (auto simp add: Frame_Validate_def)
  have enc: "(if PayloadLen f \<le> 125 then len_field7 f
              else if PayloadLen f \<le> 65535 then len_field16 f else len_field64 f) = len_field7 f
               \<and> PayloadLen f \<le> 125
           \<or> (if PayloadLen f \<le> 125 then len_field7 f
              else if PayloadLen f \<le> 65535 then len_field16 f else len_field64 f) = len_field16 f
               \<and> PayloadLen f \<le> 65535
           \<or> (if PayloadLen f \<le> 125 then len_field7 f
              else if PayloadLen f \<le> 65535 then len_field16 f else len_field64 f) = len_field64 f"
    by simp
  show ?thesis
    using WriteFrame_octets [OF val, of fp "[]"]
      ReadFrame_encoded [OF op rsv len mx ctl enc, of rest]
    by simp
qed

theorem ReadFrame_WriteFrame_roundtrip_witness:
  "isValidOpcode \<lparr> FIN = True, RSV1 = False, RSV2 = False, RSV3 = False, Opcode = OpcodeText,
             Masked = True, PayloadLen = 5, MaskingKey = (0x37, 0xFA, 0x21, 0x3D),
             Payload = [0x48, 0x65, 0x6C, 0x6C, 0x6F] \<rparr>
   \<and> length [0x48, 0x65, 0x6C, 0x6C, 0x6F :: byte] = unat (5 :: uint64)
   \<and> (5 :: uint64) \<le> maxPayloadSize (NewFrameParser 0)
   \<and> ReadFrame (NewFrameParser 0)
        (snd (WriteFrame (NewFrameParser 0) []
           \<lparr> FIN = True, RSV1 = False, RSV2 = False, RSV3 = False, Opcode = OpcodeText,
             Masked = True, PayloadLen = 5, MaskingKey = (0x37, 0xFA, 0x21, 0x3D),
             Payload = [0x48, 0x65, 0x6C, 0x6C, 0x6F] \<rparr>) @ [0x81, 0x00])
      = (Inr \<lparr> FIN = True, RSV1 = False, RSV2 = False, RSV3 = False, Opcode = OpcodeText,
             Masked = True, PayloadLen = 5, MaskingKey = (0x37, 0xFA, 0x21, 0x3D),
             Payload = [0x48, 0x65, 0x6C, 0x6C, 0x6F] \<rparr>, [0x81, 0x00])"
  using ReadFrame_WriteFrame_roundtrip
    [of "\<lparr> FIN = True, RSV1 = False, RSV2 = False, RSV3 = False, Opcode = OpcodeText,
             Masked = True, PayloadLen = 5, MaskingKey = (0x37, 0xFA, 0x21, 0x3D),
             Payload = [0x48, 0x65, 0x6C, 0x6C, 0x6F] \<rparr>" "NewFrameParser 0" "[0x81, 0x00]"]
  by (simp add: isValidOpcode_def Opcode_defs IsControl_def NewFrameParser_def MaxPayloadSize_def)

text \<open>
  C1 as stated asks for equality in every field. An unmasked frame whose masking key is
  not zero is structurally valid, yet it is read back with the key zeroed.
\<close>

theorem roundtrip_unmasked_key_counterexample:
  "isValidOpcode \<lparr> FIN = True, RSV1 = False, RSV2 = False, RSV3 = False, Opcode = OpcodeText,
       Masked = False, PayloadLen = 0, MaskingKey = (1, 2, 3, 4), Payload = [] \<rparr>
   \<and> Frame_Validate \<lparr> FIN = True, RSV1 = False, RSV2 = False, RSV3 = False, Opcode = OpcodeText,
       Masked = False, PayloadLen = 0, MaskingKey = (1, 2, 3, 4), Payload = [] \<rparr> = None
   \<and> WriteFrame (NewFrameParser 0) []
        \<lparr> FIN = True, RSV1 = False, RSV2 = False, RSV3 = False, Opcode = OpcodeText,
          Masked = False, PayloadLen = 0, MaskingKey = (1, 2, 3, 4), Payload = [] \<rparr>
       = (None, [0x81, 0x00])
   \<and> ReadFrame (NewFrameParser 0) [0x81, 0x00]
       = (Inr \<lparr> FIN = True, RSV1 = False, RSV2 = False, RSV3 = False, Opcode = OpcodeText,
              Masked = False, PayloadLen = 0, MaskingKey = (0, 0, 0, 0), Payload = [] \<rparr>, [])
   \<and> fst (ReadFrame (NewFrameParser 0) [0x81, 0x00])
       \<noteq> Inr \<lparr> FIN = True, RSV1 = False, RSV2 = False, RSV3 = False, Opcode = OpcodeText,
              Masked = False, PayloadLen = 0, MaskingKey = (1, 2, 3, 4), Payload = [] \<rparr>"
  by (simp add: ReadFrame_two parse_small isValidOpcode_def Opcode_defs IsControl_def IsData_def
      Frame_Validate_def WriteFrame_def frame_header_def Write_def NewFrameParser_def
      MaxPayloadSize_def)

text \<open>
  C7. For every frame that \<open>WriteFrame\<close> accepts, the octets written are the first octet,
  the length field, the masking key if any, and the payload, where the length field is the
  narrowest of the three encodings: one octet holding the length when it is at most 125;
  the marker 126 and two octets, most significant first, when it is between 126 and 65535;
  the marker 127 and eight octets, most significant first, above that. \<open>ReadFrame\<close> accepts
  each of the three encodings of the same length, minimal or not (the 16-bit one for any
  length up to 65535, the 64-bit one for any length), and the frame it returns has that
  length as \<open>PayloadLen\<close>. For the reading, the payload is taken to have the declared number
  of octets, which is what the check \<open>uint64(len(f.Payload)) = f.PayloadLen\<close> of
  \<open>Frame_Validate\<close> says of a Go slice, and the length to be within the limit of the
  reading codec \<open>fp'\<close>.
\<close>

theorem length_field_encodings:
  assumes val: "Frame_Validate f = None"
  shows "WriteFrame fp [] f =
           (None, octet0 f #
              (if PayloadLen f \<le> 125 then len_field7 f
               else if PayloadLen f \<le> 65535 then len_field16 f
               else len_field64 f) @ key_octets f @ payload_octets f)
     \<and> (length (Payload f) = unat (PayloadLen f) \<and> PayloadLen f \<le> maxPayloadSize fp' \<longrightarrow>
          (PayloadLen f \<le> 125 \<longrightarrow>
            (\<exists>g. ReadFrame fp' (octet0 f # len_field7 f @ key_octets f @ payload_octets f @ rest)
                   = (Inr g, rest) \<and> PayloadLen g = PayloadLen f \<and> Payload g = Payload f))
        \<and> (PayloadLen f \<le> 65535 \<longrightarrow>
            (\<exists>g. ReadFrame fp' (octet0 f # len_field16 f @ key_octets f @ payload_octets f @ rest)
                   = (Inr g, rest) \<and> PayloadLen g = PayloadLen f \<and> Payload g = Payload f))
        \<and> (\<exists>g. ReadFrame fp' (octet0 f # len_field64 f @ key_octets f @ payload_octets f @ rest)
                   = (Inr g, rest) \<and> PayloadLen g = PayloadLen f \<and> Payload g = Payload f))"
proof -
  have op: "isValidOpcode f" and rsv: "\<not> RSV1 f" "\<not> RSV2 f" "\<not> RSV3 f"
    and ctl: "IsControl (Opcode f) \<longrightarrow> PayloadLen f \<le> 125 \<and> FIN f"
    using val by (auto simp add: Frame_Validate_def split: if_splits)
  have rd: "ReadFrame fp' (octet0 f # lenf @ key_octets f @ payload_octets f @ rest)
        = (Inr (f\<lparr>MaskingKey := (if Masked f then MaskingKey f else (0, 0, 0, 0))\<rparr>), rest)"
    if len: "length (Payload f) = unat (PayloadLen f)"
      and mx: "PayloadLen f \<le> maxPayloadSize fp'"
      and enc: "lenf = len_field7 f \<and> PayloadLen f \<le> 125
            \<or> lenf = len_field16 f \<and> PayloadLen f \<le> 65535
            \<or> lenf = len_field64 f"
    for lenf
    by (rule ReadFrame_encoded [OF op rsv len mx ctl enc])
  have r7: "ReadFrame fp' (octet0 f # len_field7 f @ key_octets f @ payload_octets f @ rest)
        = (Inr (f\<lparr>MaskingKey := (if Masked f then MaskingKey f else (0, 0, 0, 0))\<rparr>), rest)"
    if "length (Payload f) = unat (PayloadLen f)" "PayloadLen f \<le> maxPayloadSize fp'"
      "PayloadLen f \<le> 125"
    using that by (intro rd) simp_all
  have r16: "ReadFrame fp' (octet0 f # len_field16 f @ key_octets f @ payload_octets f @ rest)
        = (Inr (f\<lparr>MaskingKey := (if Masked f then MaskingKey f else (0, 0, 0, 0))\<rparr>), rest)"
    if "length (Payload f) = unat (PayloadLen f)" "PayloadLen f \<le> maxPayloadSize fp'"
      "PayloadLen f \<le> 65535"
    using that by (intro rd) simp_all
  have r64: "ReadFrame fp' (octet0 f # len_field64 f @ key_octets f @ payload_octets f @ rest)
        = (Inr (f\<lparr>MaskingKey := (if Masked f then MaskingKey f else (0, 0, 0, 0))\<rparr>), rest)"
    if "length (Payload f) = unat (PayloadLen f)" "PayloadLen f \<le> maxPayloadSize fp'"
    using that by (intro rd) simp_all
  show ?thesis
    using WriteFrame_octets [OF val, of fp "[]"] r7 r16 r64 by simp
qed

text \<open>
  A binary frame of 200 octets is written with the marker 126 and the octets 0x00 0xC8; a
  text frame of 5 octets is read back with length 5 from the 7-bit, from the 16-bit and
  from the 64-bit encoding.
\<close>

theorem length_field_encodings_witness:
  "take 4 (snd (WriteFrame (NewFrameParser 0) [] \<lparr> FIN = True, RSV1 = False, RSV2 = False, RSV3 = False, Opcode = OpcodeBinary,
             Masked = False, PayloadLen = 200, MaskingKey = (0, 0, 0, 0),
             Payload = replicate 200 0 \<rparr>)) = [0x82, 0x7E, 0x00, 0xC8]
   \<and> (\<exists>g. ReadFrame (NewFrameParser 0) [0x81, 0x05, 0x48, 0x65, 0x6C, 0x6C, 0x6F]
             = (Inr g, []) \<and> PayloadLen g = 5)
   \<and> (\<exists>g. ReadFrame (NewFrameParser 0) [0x81, 0x7E, 0x00, 0x05, 0x48, 0x65, 0x6C, 0x6C, 0x6F]
             = (Inr g, []) \<and> PayloadLen g = 5)
   \<and> (\<exists>g. ReadFrame (NewFrameParser 0)
              [0x81, 0x7F, 0, 0, 0, 0, 0, 0, 0, 0x05, 0x48, 0x65, 0x6C, 0x6C, 0x6F]
             = (Inr g, []) \<and> PayloadLen g = 5)"
  using length_field_encodings [of "\<lparr> FIN = True, RSV1 = False, RSV2 = False, RSV3 = False, Opcode = OpcodeBinary,
             Masked = False, PayloadLen = 200, MaskingKey = (0, 0, 0, 0),
             Payload = replicate 200 0 \<rparr>" "NewFrameParser 0" "NewFrameParser 0" "[]"]
    length_field_encodings [of "NewFrame OpcodeText [0x48, 0x65, 0x6C, 0x6C, 0x6F]"
      "NewFrameParser 0" "NewFrameParser 0" "[]"]
  by (simp add: Frame_Validate_def isValidOpcode_def Opcode_defs IsControl_def NewFrame_def
      NewFrameParser_def MaxPayloadSize_def) blast

lemma unmask_from_nth:
  "i < length p \<Longrightarrow> unmask_from j p k ! i = (p ! i) XOR key_index k ((j + i) mod 4)"
proof (induction p arbitrary: i j)
  case Nil
  then show ?case by simp
next
  case (Cons b bs)
  show ?case
  proof (cases i)
    case 0
    then show ?thesis by simp
  next
    case (Suc i')
    with Cons.prems have "i' < length bs" by simp
    from Cons.IH [OF this, of "Suc j"] Suc show ?thesis by simp
  qed
qed

lemma WriteFrame_heap_value:
  assumes wf: "\<And>a. PayloadRef fr = Some a \<Longrightarrow> a < length h"
  shows "fst (WriteFrame_heap fp h w fr) = fst (WriteFrame fp w (deref h fr))
       \<and> snd (snd (WriteFrame_heap fp h w fr)) = snd (WriteFrame fp w (deref h fr))"
proof (cases "PayloadRef fr")
  case None
  then show ?thesis
    by (simp add: WriteFrame_heap_def WriteFrame_def slice_len_def slice_bytes_def deref_def
        Let_def split: option.splits)
next
  case (Some a)
  then have a: "a < length h" by (rule wf)
  have "copy_bytes (h @ [replicate (length (h ! a)) 0]) (length h) (Some a)
          = h @ [h ! a]"
    using a by (simp add: copy_bytes_def slice_len_def slice_bytes_def nth_append Let_def)
  then show ?thesis
    using Some a
    by (simp add: WriteFrame_heap_def WriteFrame_def slice_len_def slice_bytes_def deref_def
        make_bytes_def UnmaskPayload_at_def Let_def split: option.splits)
qed

text \<open>
  C8. For every masked frame that \<open>WriteFrame\<close> accepts, the octets written after the
  header are the payload with octet \<open>i\<close> XORed with octet \<open>i mod 4\<close> of the masking key, and
  the heap after the call holds every array it held before with the same contents: the
  array behind \<open>frame.Payload\<close> is octet for octet what it was. The masking is done on a
  copy, the one array the call allocates.
\<close>

theorem WriteFrame_keeps_payload:
  assumes wf: "\<forall>a. PayloadRef fr = Some a \<longrightarrow> a < length h"
    and masked: "Masked fr"
    and ok: "fst (WriteFrame_heap fp h w fr) = None"
  shows "\<exists>h'. WriteFrame_heap fp h w fr
            = (None, h', w @ frame_header (deref h fr)
                 @ UnmaskPayload (slice_bytes h (PayloadRef fr)) (MaskingKey fr))
          \<and> take (length h) h' = h
          \<and> slice_bytes h' (PayloadRef fr) = slice_bytes h (PayloadRef fr)
          \<and> (\<forall>i < slice_len h (PayloadRef fr).
                UnmaskPayload (slice_bytes h (PayloadRef fr)) (MaskingKey fr) ! i
                  = slice_bytes h (PayloadRef fr) ! i XOR key_index (MaskingKey fr) (i mod 4))"
proof -
  have val: "Frame_Validate (deref h fr) = None"
    using ok by (simp add: WriteFrame_heap_def split: option.splits)
  have xor: "\<forall>i < slice_len h (PayloadRef fr).
                UnmaskPayload (slice_bytes h (PayloadRef fr)) (MaskingKey fr) ! i
                  = slice_bytes h (PayloadRef fr) ! i XOR key_index (MaskingKey fr) (i mod 4)"
    using unmask_from_nth [of _ "slice_bytes h (PayloadRef fr)" 0 "MaskingKey fr"]
    by (simp add: UnmaskPayload_def slice_len_def)
  show ?thesis
  proof (cases "PayloadRef fr")
    case None
    then show ?thesis
      using val
      by (simp add: WriteFrame_heap_def slice_len_def slice_bytes_def Write_def UnmaskPayload_def)
  next
    case (Some a)
    with wf have a: "a < length h" by simp
    have cp: "copy_bytes (h @ [replicate (length (h ! a)) 0]) (length h) (Some a) = h @ [h ! a]"
      using a by (simp add: copy_bytes_def slice_len_def slice_bytes_def nth_append Let_def)
    show ?thesis
    proof (cases "h ! a = []")
      case True
      then show ?thesis
        using val Some a
        by (simp add: WriteFrame_heap_def slice_len_def slice_bytes_def Write_def UnmaskPayload_def)
    next
      case False
      then show ?thesis
        using val Some a masked cp xor
        by (simp add: WriteFrame_heap_def slice_len_def slice_bytes_def Write_def make_bytes_def
            UnmaskPayload_at_def nth_append)
    qed
  qed
qed

text \<open>
  The masked text frame "Hello" with key 37 FA 21 3D: the octets written are those of the
  wire format, the caller's array still holds "Hello", and the masked copy is a second
  array.
\<close>

theorem WriteFrame_keeps_payload_witness:
  "WriteFrame_heap (NewFrameParser 0) [ [0x48, 0x65, 0x6C, 0x6C, 0x6F] ] []
      \<lparr> FIN = True, RSV1 = False, RSV2 = False, RSV3 = False, Opcode = OpcodeText,
        Masked = True, PayloadLen = 5, MaskingKey = (0x37, 0xFA, 0x21, 0x3D),
        PayloadRef = Some 0 \<rparr>
    = (None, [ [0x48, 0x65, 0x6C, 0x6C, 0x6F], [0x7F, 0x9F, 0x4D, 0x51, 0x58] ],
       [0x81, 0x85, 0x37, 0xFA, 0x21, 0x3D, 0x7F, 0x9F, 0x4D, 0x51, 0x58])"
  using WriteFrame_keeps_payload [of
      "\<lparr> FIN = True, RSV1 = False, RSV2 = False, RSV3 = False, Opcode = OpcodeText,
        Masked = True, PayloadLen = 5, MaskingKey = (0x37, 0xFA, 0x21, 0x3D),
        PayloadRef = Some 0 \<rparr>" "[ [0x48, 0x65, 0x6C, 0x6C, 0x6F] ]" "NewFrameParser 0" "[]"]
  by (simp add: WriteFrame_heap_def Frame_Validate_def isValidOpcode_def Opcode_defs IsControl_def
      deref_def slice_bytes_def slice_len_def frame_header_def Write_def make_bytes_def
      copy_bytes_def UnmaskPayload_at_def UnmaskPayload_def)

section \<open>Facts about strings\<close>


lemma DecodeRune_ascii: "(of_char c :: nat) < 0x80 \<Longrightarrow> DecodeRune (c # cs) = (of_char c, 1)"
  by (simp add: DecodeRune_def RuneSelf_def)

lemma runes_Nil: "runes [] = []"
  by (simp add: runes.simps)

lemma runes_ascii_Cons: "(of_char c :: nat) < 0x80 \<Longrightarrow> runes (c # cs) = of_char c # runes cs"
  by (simp add: runes.simps [of "c # cs"] DecodeRune_ascii)

lemma runes_ascii: "is_ascii s \<Longrightarrow> runes s = map of_char s"
  by (induction s) (simp_all add: runes_Nil runes_ascii_Cons is_ascii_def)

lemma fold_eq_ascii:
  assumes "a < 0x80" "b < 0x80"
  shows "fold_eq tbl a b = (ascii_lower a = ascii_lower b)"
  using assms
  by (auto simp add: ascii_lower_def fold_eq_def RuneSelf_def Let_def min_def max_def)

lemma EqualFold_ascii:
  assumes "is_ascii s" "is_ascii t"
  shows "EqualFold tbl s t = ascii_ci_eq s t"
  using assms
proof (induction s arbitrary: t)
  case Nil
  then show ?case by (cases t) (simp_all add: EqualFold_def ascii_ci_eq_def runes_ascii)
next
  case (Cons c cs)
  show ?case
  proof (cases t)
    case Nil
    then show ?thesis using Cons.prems by (simp add: EqualFold_def ascii_ci_eq_def runes_ascii)
  next
    case (Cons d ds)
    have cs: "is_ascii cs" and ds: "is_ascii ds" and c: "(of_char c :: nat) < 0x80" and d: "(of_char d :: nat) < 0x80"
      using Cons.prems Cons by (simp_all add: is_ascii_def)
    have "EqualFold tbl cs ds = ascii_ci_eq cs ds" by (rule Cons.IH [OF cs ds])
    then show ?thesis
      using Cons c d cs ds fold_eq_ascii [OF c d, of tbl]
      by (simp add: EqualFold_def ascii_ci_eq_def runes_ascii_Cons)
  qed
qed

lemma is_ascii_iff: "is_ascii s = (\<forall>c\<in>set s. (of_char c :: nat) < 0x80)"
  by (simp add: is_ascii_def list_all_iff)

lemma is_ascii_dropWhile: "is_ascii s \<Longrightarrow> is_ascii (dropWhile P s)"
  by (auto simp add: is_ascii_iff dest: set_dropWhileD)

lemma is_ascii_rev: "is_ascii (rev s) = is_ascii s"
  by (simp add: is_ascii_iff)

lemma is_ascii_ascii_trim: "is_ascii s \<Longrightarrow> is_ascii (ascii_trim s)"
  by (simp add: ascii_trim_def is_ascii_rev is_ascii_dropWhile)

lemma TrimSpace_ascii:
  assumes "is_ascii s"
  shows "TrimSpace s = ascii_trim s"
proof -
  define s1 where "s1 = dropWhile asciiSpace s"
  define s2 where "s2 = rev (dropWhile asciiSpace (rev s1))"
  have a1: "is_ascii s1"
    unfolding s1_def by (rule is_ascii_dropWhile [OF assms])
  have a2: "is_ascii s2"
    unfolding s2_def using a1 by (simp add: is_ascii_rev is_ascii_dropWhile)
  have h1: "s1 \<noteq> [] \<Longrightarrow> \<not> RuneSelf \<le> (of_char (hd s1) :: nat)"
    using a1 by (cases s1) (simp_all add: is_ascii_iff RuneSelf_def)
  have h2: "\<not> RuneSelf \<le> (of_char (last s2) :: nat)" if ne: "s2 \<noteq> []"
  proof -
    have "last s2 \<in> set s2" by (rule last_in_set [OF ne])
    with a2 have "(of_char (last s2) :: nat) < 0x80" unfolding is_ascii_iff by blast
    then show ?thesis by (simp add: RuneSelf_def)
  qed
  have h0: "s1 = [] \<Longrightarrow> s2 = []"
    by (simp add: s2_def)
  have "TrimSpace s = s2"
    using h0 h1 h2 by (auto simp add: TrimSpace_def Let_def s1_def [symmetric] s2_def [symmetric])
  then show ?thesis by (simp add: ascii_trim_def s1_def s2_def)
qed

lemma Split_nonempty: "Split s sep \<noteq> []"
  by (induction s) (simp_all split: list.splits)

lemma is_ascii_Split: "is_ascii s \<Longrightarrow> p \<in> set (Split s sep) \<Longrightarrow> is_ascii p"
proof (induction s arbitrary: p)
  case Nil
  then show ?case by (simp add: is_ascii_iff)
next
  case (Cons c cs)
  have cs: "is_ascii cs" and c: "(of_char c :: nat) < 0x80"
    using Cons.prems(1) by (simp_all add: is_ascii_iff)
  obtain x xs where sp: "Split cs sep = x # xs"
    using Split_nonempty [of cs sep] by (cases "Split cs sep") auto
  have x: "is_ascii x" and xs: "\<And>q. q \<in> set xs \<Longrightarrow> is_ascii q"
    using Cons.IH [OF cs] sp by simp_all
  show ?case
  proof (cases "c = sep")
    case True
    then show ?thesis using Cons.prems(2) Cons.IH [OF cs] by (auto simp add: is_ascii_iff)
  next
    case False
    then have "p = c # x \<or> p \<in> set xs" using Cons.prems(2) sp by simp
    then show ?thesis using c x xs by (auto simp add: is_ascii_iff)
  qed
qed

lemma containsToken_ascii:
  assumes "is_ascii h" "is_ascii tok"
  shows "containsToken tbl h tok
         = (\<exists>p\<in>set (Split h (CHR '','')). ascii_ci_eq (ascii_trim p) tok)"
proof -
  have "EqualFold tbl (TrimSpace p) tok = ascii_ci_eq (ascii_trim p) tok"
    if "p \<in> set (Split h (CHR '',''))" for p
  proof -
    have p: "is_ascii p" by (rule is_ascii_Split [OF assms(1) that])
    show ?thesis
      using EqualFold_ascii [OF is_ascii_ascii_trim [OF p] assms(2), of tbl]
      by (simp add: TrimSpace_ascii [OF p])
  qed
  then show ?thesis by (simp add: containsToken_def list_ex_iff)
qed

lemma EqualFold_Nil_left: "is_ascii t \<Longrightarrow> t \<noteq> [] \<Longrightarrow> \<not> EqualFold tbl [] t"
  by (cases t) (simp_all add: EqualFold_def runes_Nil runes_ascii is_ascii_def)

lemma containsToken_Nil: "is_ascii t \<Longrightarrow> t \<noteq> [] \<Longrightarrow> \<not> containsToken tbl [] t"
  by (simp add: containsToken_def TrimSpace_def EqualFold_Nil_left)

lemma Header_Get_None: "h key = None \<Longrightarrow> Header_Get h key = []"
  by (simp add: Header_Get_def)


lemmas hs_eval = ValidateRequest_def Header_Get_def containsToken_def TrimSpace_def asciiSpace_def
  EqualFold_def runes.simps DecodeRune_def RuneSelf_def fold_eq_def quoted_def
  HeaderUpgrade_def HeaderConnection_def HeaderSecWebSocketKey_def HeaderSecWebSocketVersion_def
  HeaderValueWebSocket_def HeaderValueUpgrade_def WebSocketVersion_def


section \<open>Properties of the handshake\<close>

text \<open>
  C6, as the code has it. \<open>ValidateRequest\<close> succeeds exactly when four checks hold: the
  Upgrade header equals "websocket" under \<open>EqualFold\<close>; a piece of the Connection header,
  split at commas and trimmed by \<open>TrimSpace\<close>, equals "Upgrade" under \<open>EqualFold\<close>; the
  Sec-WebSocket-Key header is present with a non-empty first value; the
  Sec-WebSocket-Version header equals "13". The checks are made in this order and the
  error of the first one that fails is returned; a request that lacks one of the four
  headers is rejected. For a header value of ASCII octets, \<open>EqualFold\<close> is equality
  ASCII-case-insensitively and \<open>TrimSpace\<close> removes ASCII white space. The comparison is
  the one of Unicode simple case folding, so that beyond ASCII it accepts more than the
  ASCII comparison does. The theorem holds whatever the Unicode tables say about runes
  outside ASCII (\<open>tbl\<close>).
\<close>

theorem ValidateRequest_checks:
  "(ValidateRequest tbl req = None)
     = (EqualFold tbl (Header_Get (Header req) ''Upgrade'') ''websocket''
        \<and> containsToken tbl (Header_Get (Header req) ''Connection'') ''Upgrade''
        \<and> Header_Get (Header req) ''Sec-WebSocket-Key'' \<noteq> []
        \<and> Header_Get (Header req) ''Sec-WebSocket-Version'' = ''13'')
   \<and> ValidateRequest tbl req
     = (if \<not> EqualFold tbl (Header_Get (Header req) ''Upgrade'') ''websocket''
        then Some (Errorf (''missing or invalid Upgrade header: expected '' @ quoted ''websocket''
                     @ '', got '' @ quoted (Header_Get (Header req) ''Upgrade'')))
        else if \<not> containsToken tbl (Header_Get (Header req) ''Connection'') ''Upgrade''
        then Some (Errorf (''missing or invalid Connection header: expected '' @ quoted ''Upgrade''
                     @ '', got '' @ quoted (Header_Get (Header req) ''Connection'')))
        else if Header_Get (Header req) ''Sec-WebSocket-Key'' = []
        then Some (Errorf ''missing Sec-WebSocket-Key header'')
        else if Header_Get (Header req) ''Sec-WebSocket-Version'' \<noteq> ''13''
        then Some (Errorf (''unsupported WebSocket version: expected '' @ quoted ''13''
                     @ '', got '' @ quoted (Header_Get (Header req) ''Sec-WebSocket-Version'')))
        else None)
   \<and> (Header req ''Upgrade'' = None \<or> Header req ''Connection'' = None
        \<or> Header req ''Sec-WebSocket-Key'' = None \<or> Header req ''Sec-WebSocket-Version'' = None
       \<longrightarrow> ValidateRequest tbl req \<noteq> None)
   \<and> (is_ascii (Header_Get (Header req) ''Upgrade'') \<longrightarrow>
        EqualFold tbl (Header_Get (Header req) ''Upgrade'') ''websocket''
          = ascii_ci_eq (Header_Get (Header req) ''Upgrade'') ''websocket'')
   \<and> (is_ascii (Header_Get (Header req) ''Connection'') \<longrightarrow>
        containsToken tbl (Header_Get (Header req) ''Connection'') ''Upgrade''
          = (\<exists>p\<in>set (Split (Header_Get (Header req) ''Connection'') (CHR '','')).
               ascii_ci_eq (ascii_trim p) ''Upgrade''))"
proof -
  have ws: "is_ascii ''websocket''" and up: "is_ascii ''Upgrade''"
    by (simp_all add: is_ascii_def)
  have unfold: "ValidateRequest tbl req
     = (if \<not> EqualFold tbl (Header_Get (Header req) ''Upgrade'') ''websocket''
        then Some (Errorf (''missing or invalid Upgrade header: expected '' @ quoted ''websocket''
                     @ '', got '' @ quoted (Header_Get (Header req) ''Upgrade'')))
        else if \<not> containsToken tbl (Header_Get (Header req) ''Connection'') ''Upgrade''
        then Some (Errorf (''missing or invalid Connection header: expected '' @ quoted ''Upgrade''
                     @ '', got '' @ quoted (Header_Get (Header req) ''Connection'')))
        else if Header_Get (Header req) ''Sec-WebSocket-Key'' = []
        then Some (Errorf ''missing Sec-WebSocket-Key header'')
        else if Header_Get (Header req) ''Sec-WebSocket-Version'' \<noteq> ''13''
        then Some (Errorf (''unsupported WebSocket version: expected '' @ quoted ''13''
                     @ '', got '' @ quoted (Header_Get (Header req) ''Sec-WebSocket-Version'')))
        else None)"
    by (simp add: ValidateRequest_def Let_def HeaderUpgrade_def HeaderConnection_def
        HeaderSecWebSocketKey_def HeaderSecWebSocketVersion_def HeaderValueWebSocket_def
        HeaderValueUpgrade_def WebSocketVersion_def)
  have iff: "(ValidateRequest tbl req = None)
     = (EqualFold tbl (Header_Get (Header req) ''Upgrade'') ''websocket''
        \<and> containsToken tbl (Header_Get (Header req) ''Connection'') ''Upgrade''
        \<and> Header_Get (Header req) ''Sec-WebSocket-Key'' \<noteq> []
        \<and> Header_Get (Header req) ''Sec-WebSocket-Version'' = ''13'')"
    unfolding unfold by simp
  have missing: "Header req ''Upgrade'' = None \<or> Header req ''Connection'' = None
        \<or> Header req ''Sec-WebSocket-Key'' = None \<or> Header req ''Sec-WebSocket-Version'' = None
       \<longrightarrow> ValidateRequest tbl req \<noteq> None"
    unfolding iff
    using EqualFold_Nil_left [OF ws, of tbl] containsToken_Nil [OF up, of tbl]
    by (auto simp add: Header_Get_None)
  show ?thesis
    using unfold iff missing EqualFold_ascii [OF _ ws] containsToken_ascii [OF _ up]
    by blast
qed

text \<open>
  A request with the headers \<open>Upgrade: WebSocket\<close> and \<open>Connection: keep-alive, upgrade\<close>
  is accepted; without its key it is rejected with the error of the third check.
\<close>

theorem ValidateRequest_checks_witness:
  "is_ascii ''WebSocket'' \<and> is_ascii ''keep-alive, upgrade''
   \<and> ValidateRequest (\<lambda>a b. False)
        \<lparr> Header = [''Upgrade'' \<mapsto> [''WebSocket''], ''Connection'' \<mapsto> [''keep-alive, upgrade''],
                     ''Sec-WebSocket-Key'' \<mapsto> [''dGhlIHNhbXBsZSBub25jZQ==''],
                     ''Sec-WebSocket-Version'' \<mapsto> [''13'']] \<rparr> = None
   \<and> ValidateRequest (\<lambda>a b. False)
        \<lparr> Header = [''Upgrade'' \<mapsto> [''WebSocket''], ''Connection'' \<mapsto> [''keep-alive, upgrade''],
                     ''Sec-WebSocket-Version'' \<mapsto> [''13'']] \<rparr>
       = Some (Errorf ''missing Sec-WebSocket-Key header'')"
proof -
  have a: "is_ascii ''WebSocket''" "is_ascii ''keep-alive, upgrade''"
    by (simp_all add: is_ascii_def)
  have u: "ascii_ci_eq ''WebSocket'' ''websocket''"
    by (simp add: ascii_ci_eq_def ascii_lower_def)
  have c: "\<exists>p\<in>set (Split ''keep-alive, upgrade'' (CHR '','')). ascii_ci_eq (ascii_trim p) ''Upgrade''"
    by (simp add: ascii_ci_eq_def ascii_lower_def ascii_trim_def asciiSpace_def)
  have g: "Header_Get [''Upgrade'' \<mapsto> [''WebSocket''], ''Connection'' \<mapsto> [''keep-alive, upgrade''],
                     ''Sec-WebSocket-Key'' \<mapsto> [''dGhlIHNhbXBsZSBub25jZQ==''],
                     ''Sec-WebSocket-Version'' \<mapsto> [''13'']] ''Upgrade'' = ''WebSocket''"
     "Header_Get [''Upgrade'' \<mapsto> [''WebSocket''], ''Connection'' \<mapsto> [''keep-alive, upgrade''],
                     ''Sec-WebSocket-Key'' \<mapsto> [''dGhlIHNhbXBsZSBub25jZQ==''],
                     ''Sec-WebSocket-Version'' \<mapsto> [''13'']] ''Connection'' = ''keep-alive, upgrade''"
     "Header_Get [''Upgrade'' \<mapsto> [''WebSocket''], ''Connection'' \<mapsto> [''keep-alive, upgrade''],
                     ''Sec-WebSocket-Key'' \<mapsto> [''dGhlIHNhbXBsZSBub25jZQ==''],
                     ''Sec-WebSocket-Version'' \<mapsto> [''13'']] ''Sec-WebSocket-Key'' = ''dGhlIHNhbXBsZSBub25jZQ==''"
     "Header_Get [''Upgrade'' \<mapsto> [''WebSocket''], ''Connection'' \<mapsto> [''keep-alive, upgrade''],
                     ''Sec-WebSocket-Key'' \<mapsto> [''dGhlIHNhbXBsZSBub25jZQ==''],
                     ''Sec-WebSocket-Version'' \<mapsto> [''13'']] ''Sec-WebSocket-Version'' = ''13''"
    by (simp_all add: Header_Get_def)
  have ok: "ValidateRequest (\<lambda>a b. False)
        \<lparr> Header = [''Upgrade'' \<mapsto> [''WebSocket''], ''Connection'' \<mapsto> [''keep-alive, upgrade''],
                     ''Sec-WebSocket-Key'' \<mapsto> [''dGhlIHNhbXBsZSBub25jZQ==''],
                     ''Sec-WebSocket-Version'' \<mapsto> [''13'']] \<rparr> = None"
    using ValidateRequest_checks [of "\<lambda>a b. False"
      "\<lparr> Header = [''Upgrade'' \<mapsto> [''WebSocket''], ''Connection'' \<mapsto> [''keep-alive, upgrade''],
                     ''Sec-WebSocket-Key'' \<mapsto> [''dGhlIHNhbXBsZSBub25jZQ==''],
                     ''Sec-WebSocket-Version'' \<mapsto> [''13'']] \<rparr>"] a u c
    unfolding Request.simps g by blast
  have "Header \<lparr> Header = [''Upgrade'' \<mapsto> [''WebSocket''], ''Connection'' \<mapsto> [''keep-alive, upgrade''],
                     ''Sec-WebSocket-Version'' \<mapsto> [''13'']] \<rparr> ''Sec-WebSocket-Key'' = None"
    by simp
  then have miss: "ValidateRequest (\<lambda>a b. False)
        \<lparr> Header = [''Upgrade'' \<mapsto> [''WebSocket''], ''Connection'' \<mapsto> [''keep-alive, upgrade''],
                     ''Sec-WebSocket-Version'' \<mapsto> [''13'']] \<rparr> \<noteq> None"
    using ValidateRequest_checks [of "\<lambda>a b. False"
      "\<lparr> Header = [''Upgrade'' \<mapsto> [''WebSocket''], ''Connection'' \<mapsto> [''keep-alive, upgrade''],
                     ''Sec-WebSocket-Version'' \<mapsto> [''13'']] \<rparr>"]
    by blast
  have err: "ValidateRequest (\<lambda>a b. False)
        \<lparr> Header = [''Upgrade'' \<mapsto> [''WebSocket''], ''Connection'' \<mapsto> [''keep-alive, upgrade''],
                     ''Sec-WebSocket-Version'' \<mapsto> [''13'']] \<rparr>
       = Some (Errorf ''missing Sec-WebSocket-Key header'')"
    by (simp add: hs_eval)
  show ?thesis using a ok miss err by blast
qed

text \<open>
  C6 as stated fails for an Upgrade header that is not ASCII: the value "websoc", U+212A
  (Kelvin sign, the octets E2 84 AA), "et" is not equal to "websocket"
  ASCII-case-insensitively, and the request that carries it is accepted.
\<close>

theorem EqualFold_Kelvin_counterexample:
  "ValidateRequest (\<lambda>a b. False)
        \<lparr> Header = [''Upgrade'' \<mapsto> [''websoc'' @ [CHR 0xE2, CHR 0x84, CHR 0xAA] @ ''et''],
                     ''Connection'' \<mapsto> [''Upgrade''],
                     ''Sec-WebSocket-Key'' \<mapsto> [''dGhlIHNhbXBsZSBub25jZQ==''],
                     ''Sec-WebSocket-Version'' \<mapsto> [''13'']] \<rparr> = None
   \<and> \<not> ascii_ci_eq (''websoc'' @ [CHR 0xE2, CHR 0x84, CHR 0xAA] @ ''et'') ''websocket''"
  by (simp add: hs_eval ascii_ci_eq_def ascii_lower_def)

section \<open>Facts about SHA-1 and Base64\<close>


lemma replicate_numeral: "replicate (numeral k) x = x # replicate (pred_numeral k) x"
  by (simp add: numeral_eq_Suc)

lemmas sha1_ops = add32_def not32_def RotateLeft32_def sha1_f_def sha1_K_def

lemma length_sha1_digest: "length (sha1_digest s) = 20"
  by (cases s) (simp add: PutUint32_nat_def)

lemma length_sha1_Sum: "length (sha1_Sum data) = 20"
  by (simp add: sha1_Sum_def length_sha1_digest)

lemma length_EncodeToString: "length (EncodeToString bs) = 4 * ((length bs + 2) div 3)"
proof (induction bs rule: EncodeToString.induct)
  case (1 a b c rest)
  have "(length rest + 5) div 3 = (length rest + 2) div 3 + 1" by presburger
  with 1 show ?case by (simp add: add.commute)
qed simp_all

text \<open>
  The accept key of the sample nonce of RFC 6455, section 1.3, computed in steps: the
  padded message (two blocks), the chaining value after each block, the digest and its
  encoding.
\<close>

lemma rfc_padded:
  "bytes_of (''dGhlIHNhbXBsZSBub25jZQ=='' @ WebSocketGUID)
     @ sha1_padding (length (bytes_of (''dGhlIHNhbXBsZSBub25jZQ=='' @ WebSocketGUID)))
   = [100, 71, 104, 108, 73, 72, 78, 104, 98, 88, 66, 115, 90, 83, 66, 117, 98, 50, 53, 106,
       90, 81, 61, 61, 50, 53, 56, 69, 65, 70, 65, 53, 45, 69, 57, 49, 52, 45, 52, 55, 68, 65, 45,
       57, 53, 67, 65, 45, 67, 53, 65, 66, 48, 68, 67, 56, 53, 66, 49, 49, 128, 0, 0, 0] @ [0, 0,
       0, 0, 0, 0, 0, 0, 0, 0, 0, 0, 0, 0, 0, 0, 0, 0, 0, 0, 0, 0, 0, 0, 0, 0, 0, 0, 0, 0, 0, 0, 0,
       0, 0, 0, 0, 0, 0, 0, 0, 0, 0, 0, 0, 0, 0, 0, 0, 0, 0, 0, 0, 0, 0, 0, 0, 0, 0, 0, 0, 0, 1,
       224]"
  by (simp add: bytes_of_def WebSocketGUID_def sha1_padding_def PutUint64_nat_def
      replicate_numeral)

lemma rfc_block1: "sha1_block sha1_init [100, 71, 104, 108, 73, 72, 78, 104, 98, 88, 66,
    115, 90, 83, 66, 117, 98, 50, 53, 106, 90, 81, 61, 61, 50, 53, 56, 69, 65, 70, 65, 53, 45,
    69, 57, 49, 52, 45, 52, 55, 68, 65, 45, 57, 53, 67, 65, 45, 67, 53, 65, 66, 48, 68, 67, 56,
    53, 66, 49, 49, 128, 0, 0, 0] = (1540323111, 1931952490, 3195796473, 1517820024,
    1581688034)"
  by (simp add: sha1_block_def sha1_init_def sha1_expand.simps sha1_ops)

lemma rfc_block2: "sha1_block (1540323111, 1931952490, 3195796473, 1517820024, 1581688034)
    [0, 0, 0, 0, 0, 0, 0, 0, 0, 0, 0, 0, 0, 0, 0, 0, 0, 0, 0, 0, 0, 0, 0, 0, 0, 0, 0, 0, 0, 0,
    0, 0, 0, 0, 0, 0, 0, 0, 0, 0, 0, 0, 0, 0, 0, 0, 0, 0, 0, 0, 0, 0, 0, 0, 0, 0, 0, 0, 0, 0, 0,
    0, 1, 224] = (3011137324, 3227668246, 2432058886, 3476576581, 2998846698)"
  by (simp add: sha1_block_def sha1_expand.simps sha1_ops)

lemma rfc_blocks: "sha1_blocks sha1_init ([100, 71, 104, 108, 73, 72, 78, 104, 98, 88, 66,
    115, 90, 83, 66, 117, 98, 50, 53, 106, 90, 81, 61, 61, 50, 53, 56, 69, 65, 70, 65, 53, 45,
    69, 57, 49, 52, 45, 52, 55, 68, 65, 45, 57, 53, 67, 65, 45, 67, 53, 65, 66, 48, 68, 67, 56,
    53, 66, 49, 49, 128, 0, 0, 0] @ [0, 0, 0, 0, 0, 0, 0, 0, 0, 0, 0, 0, 0, 0, 0, 0, 0, 0, 0, 0,
    0, 0, 0, 0, 0, 0, 0, 0, 0, 0, 0, 0, 0, 0, 0, 0, 0, 0, 0, 0, 0, 0, 0, 0, 0, 0, 0, 0, 0, 0, 0,
    0, 0, 0, 0, 0, 0, 0, 0, 0, 0, 0, 1, 224]) = (3011137324, 3227668246, 2432058886, 3476576581,
    2998846698)"
proof -
  have len1: "64 \<le> length ([100, 71, 104, 108, 73, 72, 78, 104, 98, 88, 66, 115, 90, 83,
      66, 117, 98, 50, 53, 106, 90, 81, 61, 61, 50, 53, 56, 69, 65, 70, 65, 53, 45, 69, 57, 49,
      52, 45, 52, 55, 68, 65, 45, 57, 53, 67, 65, 45, 67, 53, 65, 66, 48, 68, 67, 56, 53, 66, 49,
      49, 128, 0, 0, 0] @ [0, 0, 0, 0, 0, 0, 0, 0, 0, 0, 0, 0, 0, 0, 0, 0, 0, 0, 0, 0, 0, 0, 0, 0,
      0, 0, 0, 0, 0, 0, 0, 0, 0, 0, 0, 0, 0, 0, 0, 0, 0, 0, 0, 0, 0, 0, 0, 0, 0, 0, 0, 0, 0, 0, 0,
      0, 0, 0, 0, 0, 0, 0, 1, 224])"
    by simp
  have take1: "take 64 ([100, 71, 104, 108, 73, 72, 78, 104, 98, 88, 66, 115, 90, 83, 66, 117,
      98, 50, 53, 106, 90, 81, 61, 61, 50, 53, 56, 69, 65, 70, 65, 53, 45, 69, 57, 49, 52, 45, 52,
      55, 68, 65, 45, 57, 53, 67, 65, 45, 67, 53, 65, 66, 48, 68, 67, 56, 53, 66, 49, 49, 128, 0,
      0, 0] @ [0, 0, 0, 0, 0, 0, 0, 0, 0, 0, 0, 0, 0, 0, 0, 0, 0, 0, 0, 0, 0, 0, 0, 0, 0, 0, 0, 0,
      0, 0, 0, 0, 0, 0, 0, 0, 0, 0, 0, 0, 0, 0, 0, 0, 0, 0, 0, 0, 0, 0, 0, 0, 0, 0, 0, 0, 0, 0, 0,
      0, 0, 0, 1, 224]) = [100, 71, 104, 108, 73, 72, 78, 104, 98, 88, 66, 115, 90, 83, 66, 117,
      98, 50, 53, 106, 90, 81, 61, 61, 50, 53, 56, 69, 65, 70, 65, 53, 45, 69, 57, 49, 52, 45, 52,
      55, 68, 65, 45, 57, 53, 67, 65, 45, 67, 53, 65, 66, 48, 68, 67, 56, 53, 66, 49, 49, 128, 0,
      0, 0]"
    by simp
  have drop1: "drop 64 ([100, 71, 104, 108, 73, 72, 78, 104, 98, 88, 66, 115, 90, 83, 66, 117,
      98, 50, 53, 106, 90, 81, 61, 61, 50, 53, 56, 69, 65, 70, 65, 53, 45, 69, 57, 49, 52, 45, 52,
      55, 68, 65, 45, 57, 53, 67, 65, 45, 67, 53, 65, 66, 48, 68, 67, 56, 53, 66, 49, 49, 128, 0,
      0, 0] @ [0, 0, 0, 0, 0, 0, 0, 0, 0, 0, 0, 0, 0, 0, 0, 0, 0, 0, 0, 0, 0, 0, 0, 0, 0, 0, 0, 0,
      0, 0, 0, 0, 0, 0, 0, 0, 0, 0, 0, 0, 0, 0, 0, 0, 0, 0, 0, 0, 0, 0, 0, 0, 0, 0, 0, 0, 0, 0, 0,
      0, 0, 0, 1, 224]) = [0, 0, 0, 0, 0, 0, 0, 0, 0, 0, 0, 0, 0, 0, 0, 0, 0, 0, 0, 0, 0, 0, 0, 0,
      0, 0, 0, 0, 0, 0, 0, 0, 0, 0, 0, 0, 0, 0, 0, 0, 0, 0, 0, 0, 0, 0, 0, 0, 0, 0, 0, 0, 0, 0, 0,
      0, 0, 0, 0, 0, 0, 0, 1, 224]"
    by simp
  have len2: "64 \<le> length [0, 0, 0, 0, 0, 0, 0, 0, 0, 0, 0, 0, 0, 0, 0, 0, 0, 0, 0, 0, 0,
      0, 0, 0, 0, 0, 0, 0, 0, 0, 0, 0, 0, 0, 0, 0, 0, 0, 0, 0, 0, 0, 0, 0, 0, 0, 0, 0, 0, 0, 0, 0,
      0, 0, 0, 0, 0, 0, 0, 0, 0, 0, 1, 224]"
    by simp
  have take2: "take 64 [0, 0, 0, 0, 0, 0, 0, 0, 0, 0, 0, 0, 0, 0, 0, 0, 0, 0, 0, 0, 0, 0, 0,
      0, 0, 0, 0, 0, 0, 0, 0, 0, 0, 0, 0, 0, 0, 0, 0, 0, 0, 0, 0, 0, 0, 0, 0, 0, 0, 0, 0, 0, 0, 0,
      0, 0, 0, 0, 0, 0, 0, 0, 1, 224] = [0, 0, 0, 0, 0, 0, 0, 0, 0, 0, 0, 0, 0, 0, 0, 0, 0, 0, 0,
      0, 0, 0, 0, 0, 0, 0, 0, 0, 0, 0, 0, 0, 0, 0, 0, 0, 0, 0, 0, 0, 0, 0, 0, 0, 0, 0, 0, 0, 0, 0,
      0, 0, 0, 0, 0, 0, 0, 0, 0, 0, 0, 0, 1, 224]"
    by simp
  have drop2: "drop 64 [0, 0, 0, 0, 0, 0, 0, 0, 0, 0, 0, 0, 0, 0, 0, 0, 0, 0, 0, 0, 0, 0, 0,
      0, 0, 0, 0, 0, 0, 0, 0, 0, 0, 0, 0, 0, 0, 0, 0, 0, 0, 0, 0, 0, 0, 0, 0, 0, 0, 0, 0, 0, 0, 0,
      0, 0, 0, 0, 0, 0, 0, 0, 1, 224] = []"
    by simp
  have len3: "\<not> 64 \<le> length ([] :: nat list)"
    by simp
  have "sha1_blocks sha1_init ([100, 71, 104, 108, 73, 72, 78, 104, 98, 88, 66, 115, 90, 83,
      66, 117, 98, 50, 53, 106, 90, 81, 61, 61, 50, 53, 56, 69, 65, 70, 65, 53, 45, 69, 57, 49,
      52, 45, 52, 55, 68, 65, 45, 57, 53, 67, 65, 45, 67, 53, 65, 66, 48, 68, 67, 56, 53, 66, 49,
      49, 128, 0, 0, 0] @ [0, 0, 0, 0, 0, 0, 0, 0, 0, 0, 0, 0, 0, 0, 0, 0, 0, 0, 0, 0, 0, 0, 0, 0,
      0, 0, 0, 0, 0, 0, 0, 0, 0, 0, 0, 0, 0, 0, 0, 0, 0, 0, 0, 0, 0, 0, 0, 0, 0, 0, 0, 0, 0, 0, 0,
      0, 0, 0, 0, 0, 0, 0, 1, 224]) = sha1_blocks (1540323111, 1931952490, 3195796473, 1517820024,
      1581688034) [0, 0, 0, 0, 0, 0, 0, 0, 0, 0, 0, 0, 0, 0, 0, 0, 0, 0, 0, 0, 0, 0, 0, 0, 0, 0,
      0, 0, 0, 0, 0, 0, 0, 0, 0, 0, 0, 0, 0, 0, 0, 0, 0, 0, 0, 0, 0, 0, 0, 0, 0, 0, 0, 0, 0, 0, 0,
      0, 0, 0, 0, 0, 1, 224]"
    by (subst sha1_blocks.simps) (simp only: len1 if_True take1 drop1 rfc_block1)
  also have "\<dots> = sha1_blocks (3011137324, 3227668246, 2432058886, 3476576581, 2998846698) []"
    by (subst sha1_blocks.simps) (simp only: len2 if_True take2 drop2 rfc_block2)
  also have "\<dots> = (3011137324, 3227668246, 2432058886, 3476576581, 2998846698)"
    by (subst sha1_blocks.simps) (simp only: len3 if_False)
  finally show ?thesis .
qed

lemma rfc_accept_key: "GenerateAcceptKey ''dGhlIHNhbXBsZSBub25jZQ=='' = ''s3pPLMBiTxaQ9kYGzzhZRbK+xOo=''"
  unfolding GenerateAcceptKey_def Let_def sha1_Sum_def rfc_padded rfc_blocks
  by (simp add: PutUint32_nat_def b64_char_def encodeStd_def)

section \<open>Properties of the accept key\<close>

text \<open>
  C2. For every client key \<open>k\<close>, \<open>GenerateAcceptKey k\<close> is the standard Base64 encoding of
  the SHA-1 digest of the octets of \<open>k\<close> followed by
  "258EAFA5-E914-47DA-95CA-C5AB0DC85B11"; it has exactly 28 characters; it depends on \<open>k\<close>
  alone, so equal keys give equal results; and for the key "dGhlIHNhbXBsZSBub25jZQ==" it
  is "s3pPLMBiTxaQ9kYGzzhZRbK+xOo=".
\<close>

theorem GenerateAcceptKey_correct:
  "GenerateAcceptKey k
     = EncodeToString (sha1_Sum (bytes_of (k @ ''258EAFA5-E914-47DA-95CA-C5AB0DC85B11'')))
   \<and> length (GenerateAcceptKey k) = 28
   \<and> (k' = k \<longrightarrow> GenerateAcceptKey k' = GenerateAcceptKey k)
   \<and> GenerateAcceptKey ''dGhlIHNhbXBsZSBub25jZQ=='' = ''s3pPLMBiTxaQ9kYGzzhZRbK+xOo=''"
proof -
  have "length (GenerateAcceptKey k) = 28"
    by (simp add: GenerateAcceptKey_def Let_def length_EncodeToString length_sha1_Sum)
  then show ?thesis
    using rfc_accept_key by (simp add: GenerateAcceptKey_def WebSocketGUID_def)
qed

theorem GenerateAcceptKey_correct_witness:
  "length (GenerateAcceptKey ''x3JJHMbDL1EzLkh9GBhXDw=='') = 28
   \<and> GenerateAcceptKey ''x3JJHMbDL1EzLkh9GBhXDw=='' = GenerateAcceptKey ''x3JJHMbDL1EzLkh9GBhXDw==''"
  using GenerateAcceptKey_correct [of "''x3JJHMbDL1EzLkh9GBhXDw==''" "''x3JJHMbDL1EzLkh9GBhXDw==''"]
  by blast


end
